theory Spec2Isabelle
  imports Main "HOL-Library.Word" "HOL-Library.Sublist"
begin

unbundle bit_operations_syntax

section \<open>Go string helpers used by the sources\<close>

text \<open>
  Go strings are byte sequences; \<open>string\<close> is a list of bytes as well. The helpers
  below are the functions of package \<open>strings\<close> that work on bytes alone.
  \<open>strings.ToLower\<close> and \<open>strings.TrimSpace\<close> follow the Unicode tables: they are not
  defined here but taken as parameters (\<open>lower\<close>, \<open>to_lower\<close>, \<open>trim_space\<close>) by every
  function whose source calls them.
\<close>

definition HasSuffix :: "string \<Rightarrow> string \<Rightarrow> bool" where
  "HasSuffix s suf \<longleftrightarrow>
     length suf \<le> length s \<and> drop (length s - length suf) s = suf"

definition HasPrefix :: "string \<Rightarrow> string \<Rightarrow> bool" where
  "HasPrefix s pre \<longleftrightarrow> length pre \<le> length s \<and> take (length pre) s = pre"

definition TrimSuffix :: "string \<Rightarrow> string \<Rightarrow> string" where
  "TrimSuffix s suf = (if HasSuffix s suf then take (length s - length suf) s else s)"

section \<open>Configuration (package config)\<close>

record Forwarder =
  Domain :: string
  Server :: string

section \<open>Forwarder matcher (internal/dns/forwarder.go)\<close>

record forwarderRule =
  pattern :: string
  server :: string
  isWild :: bool

text \<open>
  One iteration of the loop of \<open>NewForwarderMatcher\<close>: the rule built from one forwarder.
  The argument \<open>lower\<close> is \<open>strings.ToLower\<close>.
\<close>

definition mkRule :: "(string \<Rightarrow> string) \<Rightarrow> Forwarder \<Rightarrow> forwarderRule" where
  "mkRule lower f =
     (let domain = lower (TrimSuffix (Domain f) ''.'');
          wild = HasPrefix domain ''*.'';
          domain' = (if wild then drop 2 domain else domain)
      in \<lparr>pattern = domain', server = Server f, isWild = wild\<rparr>)"

text \<open>The matcher is its rule slice; rules are appended in input order.\<close>

definition NewForwarderMatcher ::
  "(string \<Rightarrow> string) \<Rightarrow> Forwarder list \<Rightarrow> forwarderRule list" where
  "NewForwarderMatcher lower forwarders = map (mkRule lower) forwarders"

text \<open>
  The loop of \<open>Match\<close> over the rules, on the already normalised query name. Both
  branches of the source test the same condition; they are kept as written. The result
  \<open>''''\<close> is the source's "no match".
\<close>

fun matchRules :: "forwarderRule list \<Rightarrow> string \<Rightarrow> string" where
  "matchRules [] domain = ''''"
| "matchRules (rule # rules) domain =
     (if isWild rule then
        (if domain = pattern rule \<or> HasSuffix domain (''.'' @ pattern rule)
         then server rule else matchRules rules domain)
      else
        (if domain = pattern rule \<or> HasSuffix domain (''.'' @ pattern rule)
         then server rule else matchRules rules domain))"

definition Match :: "(string \<Rightarrow> string) \<Rightarrow> forwarderRule list \<Rightarrow> string \<Rightarrow> string" where
  "Match lower m domain = matchRules m (lower (TrimSuffix domain ''.''))"

subsection \<open>The matcher as the specification words it\<close>

text \<open>
  The specification's side is written without the helpers of the model. The normal form
  of a name: one trailing dot stripped, then lowercased by \<open>lower\<close>. The normal form of a
  pattern: the same, then a leading \<open>*.\<close> stripped.
\<close>

definition strip_dot :: "string \<Rightarrow> string" where
  "strip_dot s = (if s \<noteq> [] \<and> last s = CHR ''.'' then butlast s else s)"

definition strip_wildcard :: "string \<Rightarrow> string" where
  "strip_wildcard p =
     (case p of
        a # b # rest \<Rightarrow> if a = CHR ''*'' \<and> b = CHR ''.'' then rest else p
      | _ \<Rightarrow> p)"

definition normalize_name :: "(string \<Rightarrow> string) \<Rightarrow> string \<Rightarrow> string" where
  "normalize_name lower n = lower (strip_dot n)"

definition normalize_pattern :: "(string \<Rightarrow> string) \<Rightarrow> string \<Rightarrow> string" where
  "normalize_pattern lower d = strip_wildcard (lower (strip_dot d))"

text \<open>A pattern qualifies for a name: equal to it, or a suffix of it preceded by a dot.\<close>

definition qualifies :: "string \<Rightarrow> string \<Rightarrow> bool" where
  "qualifies p n \<longleftrightarrow> n = p \<or> (\<exists>pre. n = pre @ ''.'' @ p)"

definition spec_match :: "(string \<Rightarrow> string) \<Rightarrow> Forwarder list \<Rightarrow> string \<Rightarrow> string" where
  "spec_match lower R n =
     (case find (\<lambda>f. qualifies (normalize_pattern lower (Domain f)) (normalize_name lower n)) R of
        None \<Rightarrow> '''' | Some f \<Rightarrow> Server f)"

section \<open>DNS messages (the part of github.com/miekg/dns the sources read)\<close>

text \<open>
  \<open>net.IP\<close> is a byte slice of length 4 or 16. \<open>IP_Equal\<close> is \<open>net.IP.Equal\<close>: an IPv4
  address and its IPv4-in-IPv6 form are equal. \<open>IPv4zero\<close> is \<open>net.IPv4(0,0,0,0)\<close>, which
  the library stores in the 16-byte form; \<open>IPv6zero\<close> is sixteen zero bytes.
\<close>

type_synonym IP = "8 word list"

definition v4InV6Prefix :: IP where
  "v4InV6Prefix = [0, 0, 0, 0, 0, 0, 0, 0, 0, 0, 0xff, 0xff]"

definition IPv4zero :: IP where
  "IPv4zero = v4InV6Prefix @ [0, 0, 0, 0]"

definition IPv6zero :: IP where
  "IPv6zero = replicate 16 0"

definition IP_Equal :: "IP \<Rightarrow> IP \<Rightarrow> bool" where
  "IP_Equal ip x =
     (if length ip = length x then ip = x
      else if length ip = 4 \<and> length x = 16 then take 12 x = v4InV6Prefix \<and> ip = drop 12 x
      else if length ip = 16 \<and> length x = 4 then take 12 ip = v4InV6Prefix \<and> drop 12 ip = x
      else False)"

text \<open>A resource record: its header TTL (uint32) and, for A and AAAA records, the address.\<close>

datatype RR = RR_A "32 word" IP | RR_AAAA "32 word" IP | RR_Other "32 word"

fun Ttl :: "RR \<Rightarrow> 32 word" where
  "Ttl (RR_A t _) = t"
| "Ttl (RR_AAAA t _) = t"
| "Ttl (RR_Other t) = t"

record Question =
  Name :: string
  Qtype :: "16 word"

record Msg =
  Id :: "16 word"
  Rcode :: int
  Questions :: "Question list"
  Answer :: "RR list"

definition RcodeNameError :: int where
  "RcodeNameError = 3"

section \<open>DNS cache (internal/dns/cache.go)\<close>

text \<open>
  Times are nanoseconds since the Unix epoch and durations are nanoseconds, as integers.
  The current time \<open>now\<close> is an argument of every operation that reads the clock.
  \<open>zeroTime\<close> is the zero \<open>time.Time\<close> (January 1 of year 1, UTC).
\<close>

definition Second :: int where
  "Second = 1000000000"

definition zeroTime :: int where
  "zeroTime = - 62135596800 * 1000000000"

record cacheEntry =
  msg :: Msg
  expiresAt :: int

record Cache =
  entries :: "string \<rightharpoonup> cacheEntry"
  ttl :: int
  maxSize :: int

definition NewCache :: "int \<Rightarrow> int \<Rightarrow> Cache" where
  "NewCache t n = \<lparr>entries = Map.empty, ttl = t, maxSize = n\<rparr>"

text \<open>
  \<open>dns.TypeToString\<close> is a table of the DNS library; it is the parameter \<open>tts\<close> (a type
  missing from the table gives the empty string, as a Go map lookup does).
\<close>

definition cacheKey :: "(16 word \<Rightarrow> string) \<Rightarrow> string \<Rightarrow> 16 word \<Rightarrow> string" where
  "cacheKey tts domain qtype = domain @ '':'' @ tts qtype"

definition Get :: "(16 word \<Rightarrow> string) \<Rightarrow> int \<Rightarrow> Cache \<Rightarrow> string \<Rightarrow> 16 word \<Rightarrow> Msg option" where
  "Get tts now c domain qtype =
     (case entries c (cacheKey tts domain qtype) of
        None \<Rightarrow> None
      | Some entry \<Rightarrow> if expiresAt entry < now then None else Some (msg entry))"

text \<open>The loop computing \<open>minTTL\<close> in \<open>Set\<close>, started at \<open>uint32(3600)\<close>.\<close>

definition minTTL :: "RR list \<Rightarrow> 32 word" where
  "minTTL answer = fold (\<lambda>rr m. if Ttl rr < m then Ttl rr else m) answer 3600"

definition effectiveTTL :: "int \<Rightarrow> Msg \<Rightarrow> int" where
  "effectiveTTL dflt m =
     (if 0 < length (Answer m)
      then (if uint (minTTL (Answer m)) * Second < dflt
            then uint (minTTL (Answer m)) * Second else dflt)
      else dflt)"

text \<open>
  \<open>evictOldest\<close> ranges over a Go map, whose iteration order is unspecified: the order
  of the visit is the argument \<open>ks\<close>, a list of the keys of the map. The loop state is
  the pair \<open>(oldestKey, oldestTime)\<close>.
\<close>

definition oldestStep ::
  "(string \<rightharpoonup> cacheEntry) \<Rightarrow> string \<Rightarrow> string \<times> int \<Rightarrow> string \<times> int" where
  "oldestStep es key st =
     (case es key of
        None \<Rightarrow> st
      | Some entry \<Rightarrow>
          if fst st = '''' \<or> expiresAt entry < snd st then (key, expiresAt entry) else st)"

definition evictOldest :: "string list \<Rightarrow> Cache \<Rightarrow> Cache" where
  "evictOldest ks c =
     (let oldestKey = fst (fold (oldestStep (entries c)) ks ('''', zeroTime))
      in if oldestKey \<noteq> '''' then c\<lparr>entries := (entries c)(oldestKey := None)\<rparr> else c)"

definition Set ::
  "(16 word \<Rightarrow> string) \<Rightarrow> int \<Rightarrow> string list \<Rightarrow> Cache \<Rightarrow> string \<Rightarrow> 16 word \<Rightarrow> Msg \<Rightarrow> Cache" where
  "Set tts now ks c domain qtype m =
     (let t = effectiveTTL (ttl c) m in
      if t < 10 * Second then c
      else
        let c' = (if maxSize c \<le> int (card (dom (entries c))) then evictOldest ks c else c)
        in c'\<lparr>entries := (entries c')(cacheKey tts domain qtype \<mapsto>
                  \<lparr>msg = m, expiresAt = now + t\<rparr>)\<rparr>)"

text \<open>The body of the cleanup tick: every entry with \<open>now.After(expiresAt)\<close> is deleted.\<close>

definition cleanupTick :: "int \<Rightarrow> Cache \<Rightarrow> Cache" where
  "cleanupTick now c =
     c\<lparr>entries := (\<lambda>k. case entries c k of
                          None \<Rightarrow> None
                        | Some entry \<Rightarrow> if expiresAt entry < now then None else Some entry)\<rparr>"

definition Size :: "Cache \<Rightarrow> int" where
  "Size c = int (card (dom (entries c)))"

text \<open>
  The invariant of a cache built by \<open>NewCache\<close> and \<open>Set\<close>: finitely many entries, no
  empty key (every key of \<open>cacheKey\<close> contains a colon), and at most \<open>maxSize\<close> entries.
\<close>

definition cache_inv :: "Cache \<Rightarrow> bool" where
  "cache_inv c \<longleftrightarrow>
     finite (dom (entries c)) \<and> '''' \<notin> dom (entries c) \<and> Size c \<le> maxSize c"

subsection \<open>Values used in the closed examples\<close>

text \<open>
  On ASCII strings \<open>strings.ToLower\<close> maps exactly the bytes \<open>A..Z\<close> and
  \<open>strings.TrimSpace\<close> removes exactly the leading and trailing bytes 9 to 13 and 32.
  The closed examples use ASCII strings only and pass these two functions for the
  parameters.
\<close>

definition lower_char :: "char \<Rightarrow> char" where
  "lower_char c =
     (let n = (of_char c :: nat) in if 65 \<le> n \<and> n \<le> 90 then char_of (n + 32) else c)"

definition lowerASCII :: "string \<Rightarrow> string" where
  "lowerASCII s = map lower_char s"

definition isSpaceASCII :: "char \<Rightarrow> bool" where
  "isSpaceASCII c \<longleftrightarrow> (of_char c :: nat) \<in> {9, 10, 11, 12, 13, 32}"

definition trimSpaceASCII :: "string \<Rightarrow> string" where
  "trimSpaceASCII s = rev (dropWhile isSpaceASCII (rev (dropWhile isSpaceASCII s)))"

text \<open>Two rows of \<open>dns.TypeToString\<close>: type 1 is A and type 28 is AAAA.\<close>

definition tts_sample :: "16 word \<Rightarrow> string" where
  "tts_sample q = (if q = 1 then ''A'' else if q = 28 then ''AAAA'' else '''')"

text \<open>A response with one A record of the given TTL.\<close>

definition answer_msg :: "32 word \<Rightarrow> Msg" where
  "answer_msg t = \<lparr>Id = 0, Rcode = 0, Questions = [], Answer = [RR_A t [192, 0, 2, 1]]\<rparr>"

text \<open>
  Scenario S3 after its first two insertions: a cache of \<open>maxSize\<close> 2 and default TTL of five
  minutes, with \<open>a.\<close> (TTL 10) and \<open>b.\<close> (TTL 20) inserted at time \<open>t\<close>.
\<close>

definition S3_cache :: "(16 word \<Rightarrow> string) \<Rightarrow> int \<Rightarrow> string list \<Rightarrow> string list \<Rightarrow> Cache" where
  "S3_cache tts t ks1 ks2 =
     Set tts t ks2 (Set tts t ks1 (NewCache (300 * Second) 2) ''a.'' 1 (answer_msg 10))
       ''b.'' 1 (answer_msg 20)"

section \<open>The operating system as seen by the sources\<close>

text \<open>
  The sources reach the operating system through files, external commands and the
  clock. The mutable part is the record \<open>world\<close>; the part the calls below only read, with
  the failures of external operations, is the record \<open>env\<close>. Its field \<open>trim_space\<close> is the
  library function \<open>strings.TrimSpace\<close>. Every state-changing external
  call is an \<open>action\<close>; the world logs each attempted action with a flag telling whether it
  took effect. An action that fails leaves the world as it was.
\<close>

datatype error = Error string

text \<open>A Go slice that may be \<open>nil\<close>: \<open>None\<close> is \<open>nil\<close>; ranging over it visits nothing.\<close>

definition slice :: "'a list option \<Rightarrow> 'a list" where
  "slice xs = (case xs of None \<Rightarrow> [] | Some ys \<Rightarrow> ys)"

record Config =
  Profile :: string
  ServerURL :: string
  Enabled :: bool
  Autostart :: bool
  Forwarders :: "Forwarder list option"

record LinuxDNSBackup =
  System :: string
  ConnectionName :: string
  OriginalDNS :: "string list"
  IgnoreAutoDNS :: bool
  Interface :: string
  ResolvConfModified :: bool

text \<open>The Darwin and Windows payloads stay \<open>nil\<close> on Linux and are left out.\<close>

record DNSBackup =
  CreatedAt :: int
  Linux :: "LinuxDNSBackup option"
  DNSModified :: bool

text \<open>The backup file holds the JSON of a backup, or bytes that do not parse.\<close>

datatype backup_content = Valid DNSBackup | Corrupt

datatype action =
    WriteBackupFile DNSBackup
  | RemoveBackupFile
  | WriteResolvConf string
  | WriteResolvConfBackup string
  | RemoveResolvConfBackup
  | ResolvectlDns string string
  | ResolvectlDefaultRoute string
  | ResolvectlRevert string
  | NmcliModify string string string
  | NmcliUp string
  | WriteConfigFile string
  | ProxyStart
  | ProxyStop

datatype read_op =
    ReadBackupFile | ReadResolvConf | ReadResolvConfBackup | ReadConfigFile
  | StatResolvConfBackup

record world =
  config_file :: "string option"
  backup_file :: "backup_content option"
  resolv_conf :: "string option"
  resolv_conf_backup :: "string option"
  link_dns :: "string \<Rightarrow> string list option"
  link_default_route :: "string \<Rightarrow> bool option"
  nm_ipv4_dns :: "string \<Rightarrow> string"
  nm_ignore_auto_dns :: "string \<Rightarrow> string"
  trace :: "(action \<times> bool) list"

record env =
  clock :: int
  trim_space :: "string \<Rightarrow> string"
  fails :: "action \<Rightarrow> bool"
  read_fails :: "read_op \<Rightarrow> bool"
  config_path_ok :: bool
  resolv_conf_link :: "string option"
  nmcli_found :: bool
  systemctl_is_active :: "string option"
  proc_net_route :: "string list list option"
  sys_class_net :: "string \<Rightarrow> bool"
  nmcli_show_active :: "string option"
  nmcli_show_active_name :: "string option"
  nmcli_show_dns :: "string \<Rightarrow> string option"
  nmcli_show_ignore_auto :: "string \<Rightarrow> string option"

text \<open>
  The effect of an action that succeeds. For the external tools this is their documented
  effect on the resolver configuration: \<open>resolvectl dns\<close> and \<open>default-route\<close> set the
  per-link values, \<open>resolvectl revert\<close> drops them, \<open>nmcli connection modify\<close> stores the two
  properties of the connection, \<open>nmcli connection up\<close> changes no stored setting.
\<close>

fun effect :: "action \<Rightarrow> world \<Rightarrow> world" where
  "effect (WriteBackupFile b) w = w\<lparr>backup_file := Some (Valid b)\<rparr>"
| "effect RemoveBackupFile w = w\<lparr>backup_file := None\<rparr>"
| "effect (WriteResolvConf s) w = w\<lparr>resolv_conf := Some s\<rparr>"
| "effect (WriteResolvConfBackup s) w = w\<lparr>resolv_conf_backup := Some s\<rparr>"
| "effect RemoveResolvConfBackup w = w\<lparr>resolv_conf_backup := None\<rparr>"
| "effect (ResolvectlDns iface srv) w = w\<lparr>link_dns := (link_dns w)(iface := Some [srv])\<rparr>"
| "effect (ResolvectlDefaultRoute iface) w =
     w\<lparr>link_default_route := (link_default_route w)(iface := Some True)\<rparr>"
| "effect (ResolvectlRevert iface) w =
     w\<lparr>link_dns := (link_dns w)(iface := None),
       link_default_route := (link_default_route w)(iface := None)\<rparr>"
| "effect (NmcliModify conn dnsv ign) w =
     w\<lparr>nm_ipv4_dns := (nm_ipv4_dns w)(conn := dnsv),
       nm_ignore_auto_dns := (nm_ignore_auto_dns w)(conn := ign)\<rparr>"
| "effect (NmcliUp conn) w = w"
| "effect (WriteConfigFile s) w = w\<lparr>config_file := Some s\<rparr>"
| "effect ProxyStart w = w"
| "effect ProxyStop w = w"

definition perform :: "env \<Rightarrow> action \<Rightarrow> world \<Rightarrow> bool \<times> world" where
  "perform e a w =
     (if fails e a then (False, w\<lparr>trace := trace w @ [(a, False)]\<rparr>)
      else (True, (effect a w)\<lparr>trace := trace w @ [(a, True)]\<rparr>))"


fun is_resolver_mutation :: "action \<Rightarrow> bool" where
  "is_resolver_mutation (WriteResolvConf _) = True"
| "is_resolver_mutation (ResolvectlDns _ _) = True"
| "is_resolver_mutation (ResolvectlDefaultRoute _) = True"
| "is_resolver_mutation (ResolvectlRevert _) = True"
| "is_resolver_mutation (NmcliModify _ _ _) = True"
| "is_resolver_mutation (NmcliUp _) = True"
| "is_resolver_mutation _ = False"

fun is_backup_write :: "action \<Rightarrow> bool" where
  "is_backup_write (WriteBackupFile _) = True"
| "is_backup_write _ = False"

text \<open>The actions a call added to the log.\<close>

definition new_events :: "world \<Rightarrow> world \<Rightarrow> (action \<times> bool) list" where
  "new_events w w' = drop (length (trace w)) (trace w')"

text \<open>No resolver mutation is attempted before the first attempt to write the backup file.\<close>

fun backup_before_mutation :: "(action \<times> bool) list \<Rightarrow> bool" where
  "backup_before_mutation [] = True"
| "backup_before_mutation (ev # evs) =
     (if is_backup_write (fst ev) then True
      else \<not> is_resolver_mutation (fst ev) \<and> backup_before_mutation evs)"

text \<open>No resolver mutation is attempted before the backup file has been written with success.\<close>

fun saved_before_mutation :: "(action \<times> bool) list \<Rightarrow> bool" where
  "saved_before_mutation [] = True"
| "saved_before_mutation (ev # evs) =
     (if is_backup_write (fst ev) \<and> snd ev then True
      else \<not> is_resolver_mutation (fst ev) \<and> saved_before_mutation evs)"

text \<open>Once the removal of the backup file has been attempted, no resolver mutation follows.\<close>

fun no_mutation_after_clear :: "(action \<times> bool) list \<Rightarrow> bool" where
  "no_mutation_after_clear [] = True"
| "no_mutation_after_clear (ev # evs) =
     (if fst ev = RemoveBackupFile then list_all (\<lambda>ev'. \<not> is_resolver_mutation (fst ev')) evs
      else no_mutation_after_clear evs)"

section \<open>More Go string helpers\<close>

fun Contains :: "string \<Rightarrow> string \<Rightarrow> bool" where
  "Contains [] sub = (sub = [])"
| "Contains (c # s) sub = (HasPrefix (c # s) sub \<or> Contains s sub)"

definition TrimPrefix :: "string \<Rightarrow> string \<Rightarrow> string" where
  "TrimPrefix s pre = (if HasPrefix s pre then drop (length pre) s else s)"

text \<open>\<open>strings.Split\<close> with a one-byte separator; the result is never empty.\<close>

fun Split :: "string \<Rightarrow> char \<Rightarrow> string list" where
  "Split [] sep = [[]]"
| "Split (c # s) sep =
     (if c = sep then [] # Split s sep
      else (case Split s sep of [] \<Rightarrow> [[c]] | x # xs \<Rightarrow> (c # x) # xs))"

fun Join :: "string list \<Rightarrow> string \<Rightarrow> string" where
  "Join [] sep = ''''"
| "Join [x] sep = x"
| "Join (x # y # ys) sep = x @ sep @ Join (y # ys) sep"

section \<open>Configuration store (package config)\<close>

definition DefaultServerURL :: string where
  "DefaultServerURL = ''http://localhost:8080''"

text \<open>
  \<open>DefaultServerURL\<close> is a variable that a build may set at link time; the functions that
  read it take its value as the argument \<open>dflt\<close>. The constant below is its value in the
  source.
\<close>

definition Default :: "string \<Rightarrow> Config" where
  "Default dflt = \<lparr>Profile = '''', ServerURL = dflt, Enabled = False,
                   Autostart = False, Forwarders = Some []\<rparr>"

text \<open>
  \<open>json.Unmarshal\<close> into a fresh \<open>Config\<close> and \<open>json.MarshalIndent\<close> are the parameters
  \<open>unmarshal\<close> (\<open>None\<close> is a decoding error) and \<open>marshal\<close>. \<open>configPath\<close> fails when the user
  configuration directory cannot be found or created. A file that does not exist is
  reported as such by \<open>os.ReadFile\<close>.
\<close>

definition Load ::
  "string \<Rightarrow> (string \<Rightarrow> Config option) \<Rightarrow> env \<Rightarrow> world \<Rightarrow> error + Config" where
  "Load dflt unmarshal e w =
     (if \<not> config_path_ok e then Inl (Error ''config path'')
      else case config_file w of
        None \<Rightarrow> Inr (Default dflt)
      | Some data \<Rightarrow>
          if read_fails e ReadConfigFile then Inl (Error ''read config'')
          else (case unmarshal data of
                  None \<Rightarrow> Inl (Error ''unmarshal config'')
                | Some cfg \<Rightarrow>
                    let cfg1 = (if ServerURL cfg = '''' then cfg\<lparr>ServerURL := dflt\<rparr>
                                else cfg);
                        cfg2 = (if Forwarders cfg1 = None then cfg1\<lparr>Forwarders := Some []\<rparr>
                                else cfg1)
                    in Inr cfg2))"

definition Save :: "(Config \<Rightarrow> string) \<Rightarrow> env \<Rightarrow> Config \<Rightarrow> world \<Rightarrow> error option \<times> world" where
  "Save marshal e cfg w =
     (if \<not> config_path_ok e then (Some (Error ''config path''), w)
      else let (ok, w') = perform e (WriteConfigFile (marshal cfg)) w
           in (if ok then None else Some (Error ''write config''), w'))"

section \<open>Persistent DNS backup (package system)\<close>

definition SaveBackup :: "env \<Rightarrow> DNSBackup \<Rightarrow> world \<Rightarrow> error option \<times> world" where
  "SaveBackup e backup w =
     (let b = backup\<lparr>CreatedAt := clock e, DNSModified := True\<rparr>;
          (ok, w') = perform e (WriteBackupFile b) w
      in (if ok then None else Some (Error ''write backup''), w'))"

definition LoadBackup :: "env \<Rightarrow> world \<Rightarrow> error + DNSBackup option" where
  "LoadBackup e w =
     (case backup_file w of
        None \<Rightarrow> Inr None
      | Some content \<Rightarrow>
          if read_fails e ReadBackupFile then Inl (Error ''read backup'')
          else (case content of
                  Corrupt \<Rightarrow> Inl (Error ''unmarshal backup'')
                | Valid b \<Rightarrow> Inr (Some b)))"

text \<open>
  \<open>os.Remove\<close> of a file that does not exist reports that, and \<open>ClearBackup\<close> turns it
  into success; the attempt is logged with the flag \<open>False\<close>, nothing having been removed.
\<close>

definition ClearBackup :: "env \<Rightarrow> world \<Rightarrow> error option \<times> world" where
  "ClearBackup e w =
     (case backup_file w of
        None \<Rightarrow> (None, w\<lparr>trace := trace w @ [(RemoveBackupFile, False)]\<rparr>)
      | Some _ \<Rightarrow>
          let (ok, w') = perform e RemoveBackupFile w
          in (if ok then None else Some (Error ''remove backup''), w'))"

definition HasPendingRestore :: "env \<Rightarrow> world \<Rightarrow> bool" where
  "HasPendingRestore e w =
     (case LoadBackup e w of
        Inl _ \<Rightarrow> False
      | Inr None \<Rightarrow> False
      | Inr (Some backup) \<Rightarrow> DNSModified backup)"

section \<open>System DNS on Linux (internal/system/dns_linux.go)\<close>

definition isSystemdResolved :: "env \<Rightarrow> bool" where
  "isSystemdResolved e =
     (case resolv_conf_link e of
        None \<Rightarrow> False
      | Some link \<Rightarrow> Contains link ''systemd'' \<or> Contains link ''resolved'')"

definition isNetworkManager :: "env \<Rightarrow> bool" where
  "isNetworkManager e =
     (if \<not> nmcli_found e then False
      else case systemctl_is_active e of
             None \<Rightarrow> False
           | Some output \<Rightarrow> trim_space e output = ''active'')"

text \<open>
  \<open>getDefaultInterface\<close>: \<open>proc_net_route\<close> holds the lines of /proc/net/route, each
  split into its fields (\<open>None\<close>: the file cannot be opened); the first line is the header.
\<close>

definition getDefaultInterface :: "env \<Rightarrow> error + string" where
  "getDefaultInterface e =
     (case proc_net_route e of
        None \<Rightarrow> Inl (Error ''open /proc/net/route'')
      | Some rows \<Rightarrow>
          (case find (\<lambda>flds. 2 \<le> length flds \<and> flds ! 1 = ''00000000'') (tl rows) of
             Some flds \<Rightarrow> Inr (flds ! 0)
           | None \<Rightarrow>
               (case find (sys_class_net e) [''eth0'', ''wlan0'', ''enp0s3'', ''ens33''] of
                  Some name \<Rightarrow> Inr name
                | None \<Rightarrow> Inl (Error ''no default interface found''))))"

definition emptyLinux :: LinuxDNSBackup where
  "emptyLinux = \<lparr>System = '''', ConnectionName = '''', OriginalDNS = [], IgnoreAutoDNS = False,
                 Interface = '''', ResolvConfModified = False\<rparr>"

definition newBackup :: "LinuxDNSBackup \<Rightarrow> DNSBackup" where
  "newBackup l = \<lparr>CreatedAt = zeroTime, Linux = Some l, DNSModified = False\<rparr>"

definition setDNSSystemdResolved :: "env \<Rightarrow> string \<Rightarrow> world \<Rightarrow> error option \<times> world" where
  "setDNSSystemdResolved e srv w =
     (case getDefaultInterface e of
        Inl _ \<Rightarrow> (Some (Error ''failed to get default interface''), w)
      | Inr iface \<Rightarrow>
          let backup = newBackup (emptyLinux\<lparr>System := ''systemd-resolved'', Interface := iface\<rparr>);
              (err, w1) = SaveBackup e backup w
          in if err \<noteq> None then (Some (Error ''failed to save DNS backup''), w1)
             else let (ok, w2) = perform e (ResolvectlDns iface srv) w1
                  in if \<not> ok then (Some (Error ''resolvectl failed''), w2)
                     else let (_, w3) = perform e (ResolvectlDefaultRoute iface) w2
                          in (None, w3))"

definition resetDNSSystemdResolved :: "env \<Rightarrow> world \<Rightarrow> error option \<times> world" where
  "resetDNSSystemdResolved e w =
     (let backup = (case LoadBackup e w of Inl _ \<Rightarrow> None | Inr b \<Rightarrow> b);
          fromBackup = (case backup of
                          None \<Rightarrow> None
                        | Some b \<Rightarrow> (case Linux b of
                                       None \<Rightarrow> None
                                     | Some l \<Rightarrow> if Interface l \<noteq> '''' then Some (Interface l)
                                                 else None));
          iface = (case fromBackup of Some i \<Rightarrow> Inr i | None \<Rightarrow> getDefaultInterface e)
      in case iface of
           Inl err \<Rightarrow> (Some err, w)
         | Inr i \<Rightarrow>
             let (ok, w1) = perform e (ResolvectlRevert i) w
             in if \<not> ok then (Some (Error ''resolvectl revert failed''), w1)
                else let (_, w2) = ClearBackup e w1 in (None, w2))"

text \<open>
  \<open>getNetworkManagerDNS\<close>: the two \<open>nmcli\<close> queries are read from the environment
  (\<open>None\<close>: the command failed); the parsing is the source's.
\<close>

definition getNetworkManagerDNS :: "env \<Rightarrow> string \<Rightarrow> string list \<times> bool" where
  "getNetworkManagerDNS e connName =
     (let dns = (case nmcli_show_dns e connName of
                   None \<Rightarrow> []
                 | Some output \<Rightarrow>
                     let line = trim_space e output in
                     if HasPrefix line ''ipv4.dns:''
                     then (let dnsStr = TrimPrefix line ''ipv4.dns:'' in
                           if dnsStr \<noteq> '''' \<and> dnsStr \<noteq> ''--'' then Split dnsStr (CHR '','')
                           else [])
                     else []);
          ignoreAuto = (case nmcli_show_ignore_auto e connName of
                          None \<Rightarrow> False
                        | Some output \<Rightarrow> Contains (trim_space e output) ''yes'')
      in (dns, ignoreAuto))"

text \<open>
  \<open>setDNSNetworkManager\<close> in two parts: \<open>applyNetworkManager\<close> is everything from the
  creation of the backup on, once the connection name and its current settings are read.
\<close>

definition applyNetworkManager ::
  "env \<Rightarrow> string \<Rightarrow> string \<Rightarrow> string list \<Rightarrow> bool \<Rightarrow> world \<Rightarrow> error option \<times> world" where
  "applyNetworkManager e srv connName currentDNS ignoreAutoDNS w =
     (let backup = newBackup (emptyLinux\<lparr>System := ''networkmanager'',
                     ConnectionName := connName, OriginalDNS := currentDNS,
                     IgnoreAutoDNS := ignoreAutoDNS\<rparr>);
          (err, w1) = SaveBackup e backup w
      in if err \<noteq> None then (Some (Error ''failed to save DNS backup''), w1)
         else let (ok, w2) = perform e (NmcliModify connName srv ''yes'') w1
              in if \<not> ok then (Some (Error ''nmcli modify failed''), w2)
                 else let (ok', w3) = perform e (NmcliUp connName) w2
                      in if \<not> ok' then (Some (Error ''nmcli up failed''), w3)
                         else (None, w3))"

definition setDNSNetworkManager :: "env \<Rightarrow> string \<Rightarrow> world \<Rightarrow> error option \<times> world" where
  "setDNSNetworkManager e srv w =
     (case nmcli_show_active e of
        None \<Rightarrow> (Some (Error ''failed to get active connection''), w)
      | Some output \<Rightarrow>
          let lines = Split (trim_space e output) (CHR 0x0A) in
          if length lines = 0 then (Some (Error ''no active network connection''), w)
          else
            let parts = Split (lines ! 0) (CHR '':'') in
            if length parts < 1 then (Some (Error ''failed to parse connection info''), w)
            else
              let connName = parts ! 0;
                  (currentDNS, ignoreAutoDNS) = getNetworkManagerDNS e connName
              in applyNetworkManager e srv connName currentDNS ignoreAutoDNS w)"

text \<open>The last part of \<open>resetDNSNetworkManager\<close>, once the connection name is known.\<close>

definition restoreNetworkManager ::
  "env \<Rightarrow> string \<Rightarrow> string list \<Rightarrow> bool \<Rightarrow> world \<Rightarrow> error option \<times> world" where
  "restoreNetworkManager e connName originalDNS ignoreAutoDNS w =
     (let dnsValue = (if 0 < length originalDNS then Join originalDNS '','' else '''');
          ignoreAutoValue = (if 0 < length originalDNS
                             then (if ignoreAutoDNS then ''yes'' else ''no'')
                             else ''no'');
          (ok, w1) = perform e (NmcliModify connName dnsValue ignoreAutoValue) w
      in if \<not> ok then (Some (Error ''nmcli modify failed''), w1)
         else let (_, w2) = perform e (NmcliUp connName) w1;
                  (_, w3) = ClearBackup e w2
              in (None, w3))"

definition resetDNSNetworkManager :: "env \<Rightarrow> world \<Rightarrow> error option \<times> world" where
  "resetDNSNetworkManager e w =
     (case LoadBackup e w of
        Inl _ \<Rightarrow> (Some (Error ''failed to load DNS backup''), w)
      | Inr backup \<Rightarrow>
          let l = (case backup of None \<Rightarrow> None | Some b \<Rightarrow> Linux b);
              connName = (case l of None \<Rightarrow> '''' | Some x \<Rightarrow> ConnectionName x);
              originalDNS = (case l of None \<Rightarrow> [] | Some x \<Rightarrow> OriginalDNS x);
              ignoreAutoDNS = (case l of None \<Rightarrow> False | Some x \<Rightarrow> IgnoreAutoDNS x)
          in if connName = '''' then
               (case nmcli_show_active_name e of
                  None \<Rightarrow> let (_, w1) = ClearBackup e w in (None, w1)
                | Some output \<Rightarrow>
                    let lines = Split (trim_space e output) (CHR 0x0A) in
                    if length lines = 0 then let (_, w1) = ClearBackup e w in (None, w1)
                    else restoreNetworkManager e (lines ! 0) originalDNS ignoreAutoDNS w)
             else restoreNetworkManager e connName originalDNS ignoreAutoDNS w)"

text \<open>
  \<open>os.Stat\<close> of the sibling copy: only "does not exist" makes \<open>os.IsNotExist\<close> true; any
  other outcome, a failing \<open>stat\<close> included, counts as "exists".
\<close>

definition resolvConfBackupMissing :: "env \<Rightarrow> world \<Rightarrow> bool" where
  "resolvConfBackupMissing e w \<longleftrightarrow>
     resolv_conf_backup w = None \<and> \<not> read_fails e StatResolvConfBackup"

text \<open>
  \<open>setDNSResolvConf\<close> in two parts. \<open>copyResolvConf\<close> is its first block: the copy of
  /etc/resolv.conf to the sibling file, made only when the sibling does not exist.
  \<open>setDNSResolvConf\<close> then writes the JSON backup, ignoring the result of \<open>SaveBackup\<close> as
  the source does, and overwrites /etc/resolv.conf.
\<close>

definition copyResolvConf :: "env \<Rightarrow> world \<Rightarrow> error option \<times> world" where
  "copyResolvConf e w =
     (if resolvConfBackupMissing e w then
        (case (if read_fails e ReadResolvConf then None else resolv_conf w) of
           None \<Rightarrow> (Some (Error ''failed to read resolv.conf''), w)
         | Some input \<Rightarrow>
             let (ok, w') = perform e (WriteResolvConfBackup input) w
             in (if ok then None else Some (Error ''failed to backup resolv.conf''), w'))
      else (None, w))"

definition setDNSResolvConf :: "env \<Rightarrow> string \<Rightarrow> world \<Rightarrow> error option \<times> world" where
  "setDNSResolvConf e srv w =
     (let (err, w1) = copyResolvConf e w
      in if err \<noteq> None then (err, w1)
         else
           let backup = newBackup (emptyLinux\<lparr>System := ''resolvconf'',
                                     ResolvConfModified := True\<rparr>);
               (_, w2) = SaveBackup e backup w1;
               content = ''# Generated by FilterDNS Client'' @ [CHR 0x0A] @ ''nameserver '' @ srv
                           @ [CHR 0x0A];
               (ok, w3) = perform e (WriteResolvConf content) w2
           in if \<not> ok then (Some (Error ''failed to write resolv.conf''), w3) else (None, w3))"

definition resetDNSResolvConf :: "env \<Rightarrow> world \<Rightarrow> error option \<times> world" where
  "resetDNSResolvConf e w =
     (if resolvConfBackupMissing e w then let (_, w1) = ClearBackup e w in (None, w1)
      else
        case (if read_fails e ReadResolvConfBackup then None else resolv_conf_backup w) of
          None \<Rightarrow> (Some (Error ''read resolv.conf backup''), w)
        | Some input \<Rightarrow>
            let (ok, w1) = perform e (WriteResolvConf input) w
            in if \<not> ok then (Some (Error ''write resolv.conf''), w1)
               else let (_, w2) = perform e RemoveResolvConfBackup w1;
                        (_, w3) = ClearBackup e w2
                    in (None, w3))"

definition setDNS :: "env \<Rightarrow> string \<Rightarrow> world \<Rightarrow> error option \<times> world" where
  "setDNS e srv w =
     (if isSystemdResolved e then setDNSSystemdResolved e srv w
      else if isNetworkManager e then setDNSNetworkManager e srv w
      else setDNSResolvConf e srv w)"

definition resetDNS :: "env \<Rightarrow> world \<Rightarrow> error option \<times> world" where
  "resetDNS e w =
     (if isSystemdResolved e then resetDNSSystemdResolved e w
      else if isNetworkManager e then resetDNSNetworkManager e w
      else resetDNSResolvConf e w)"

definition RestoreFromBackupIfNeeded :: "env \<Rightarrow> world \<Rightarrow> error option \<times> world" where
  "RestoreFromBackupIfNeeded e w =
     (if \<not> HasPendingRestore e w then (None, w)
      else let (err, w1) = resetDNS e w
           in if err \<noteq> None then (err, w1) else ClearBackup e w1)"

section \<open>Libraries and network as seen by the DNS code\<close>

text \<open>
  The Go standard library, the DNS library, the keychain and the network are not part of
  the sources. What the sources call is collected in the record \<open>netlib\<close>, a parameter of
  every function below:
  \<^item> \<open>to_lower\<close>: \<open>strings.ToLower\<close>; \<open>fqdn\<close>: \<open>dns.Fqdn\<close>;
  \<^item> \<open>url_hostname\<close>: \<open>url.Parse\<close> followed by \<open>Hostname()\<close>; \<open>None\<close> when parsing fails;
  \<^item> \<open>parse_ip\<close>: \<open>net.ParseIP\<close> followed by \<open>String()\<close>; \<open>None\<close> when the text is no IP literal;
  \<^item> \<open>split_host_port\<close>, \<open>join_host_port\<close>: the functions of package \<open>net\<close>;
  \<^item> \<open>valid_url\<close>: whether \<open>http.NewRequestWithContext\<close> accepts the URL;
  \<^item> \<open>pack_msg\<close>, \<open>unpack_msg\<close>, \<open>base64url\<close>, \<open>ip_string\<close>, \<open>type_to_string\<close>: encoders and tables;
  \<^item> \<open>query_id\<close>: the message id \<open>SetQuestion\<close> draws;
  \<^item> \<open>udp_exchange\<close>: one DNS exchange over UDP with a server; \<open>None\<close> is an error;
  \<^item> \<open>http_do\<close>: \<open>http.Client.Do\<close> of a client whose transport dials through the given
    hook, a function from the address the transport asks for to the address that is
    dialled; everything the library does for one call (connections, redirects, timeouts)
    is inside; \<open>None\<close> is an error of the call;
  \<^item> \<open>get_password\<close>: the keychain lookup, its error dropped as in the source.
\<close>

record http_request =
  req_method :: string
  req_url :: string
  req_headers :: "(string \<times> string) list"
  req_body :: "8 word list"

record http_response =
  status :: nat
  resp_body :: "8 word list option"

record netlib =
  to_lower :: "string \<Rightarrow> string"
  fqdn :: "string \<Rightarrow> string"
  url_hostname :: "string \<Rightarrow> string option"
  parse_ip :: "string \<Rightarrow> string option"
  split_host_port :: "string \<Rightarrow> (string \<times> string) option"
  join_host_port :: "string \<Rightarrow> string \<Rightarrow> string"
  valid_url :: "string \<Rightarrow> bool"
  pack_msg :: "Msg \<Rightarrow> 8 word list option"
  unpack_msg :: "8 word list \<Rightarrow> Msg option"
  base64url :: "8 word list \<Rightarrow> string"
  ip_string :: "IP \<Rightarrow> string"
  type_to_string :: "16 word \<Rightarrow> string"
  query_id :: "16 word"
  udp_exchange :: "Msg \<Rightarrow> string \<Rightarrow> Msg option"
  http_do :: "(string \<Rightarrow> string) \<Rightarrow> http_request \<Rightarrow> http_response option"
  get_password :: "string \<Rightarrow> string"

section \<open>DoH client (internal/dns/doh.go)\<close>

definition bootstrapDNS :: "string list" where
  "bootstrapDNS = [''1.1.1.1:53'', ''8.8.8.8:53'', ''9.9.9.9:53'']"

record DoHClient =
  serverURL :: string
  profile :: string
  serverIP :: string

definition TypeA :: "16 word" where
  "TypeA = 1"

text \<open>The first A record of an answer section, as the loop of \<open>resolveWithDNS\<close> finds it.\<close>

fun firstA :: "RR list \<Rightarrow> IP option" where
  "firstA [] = None"
| "firstA (RR_A _ ip # rest) = Some ip"
| "firstA (_ # rest) = firstA rest"

definition resolveWithDNS :: "netlib \<Rightarrow> string \<Rightarrow> string \<Rightarrow> error + string" where
  "resolveWithDNS lib hostname dnsServer =
     (let m = \<lparr>Id = query_id lib, Rcode = 0,
                Questions = [\<lparr>Name = fqdn lib hostname, Qtype = TypeA\<rparr>], Answer = []\<rparr>
      in case udp_exchange lib m dnsServer of
           None \<Rightarrow> Inl (Error ''exchange failed'')
         | Some resp \<Rightarrow>
             (case firstA (Answer resp) of
                Some ip \<Rightarrow> Inr (ip_string lib ip)
              | None \<Rightarrow> Inl (Error ''no A record found'')))"

text \<open>The loop of \<open>resolveServerIP\<close> over the bootstrap servers.\<close>

fun tryBootstrap :: "netlib \<Rightarrow> string \<Rightarrow> string list \<Rightarrow> DoHClient \<Rightarrow> DoHClient" where
  "tryBootstrap lib hostname [] c = c"
| "tryBootstrap lib hostname (bootstrap # rest) c =
     (case resolveWithDNS lib hostname bootstrap of
        Inr ip \<Rightarrow> if ip \<noteq> '''' then c\<lparr>serverIP := ip\<rparr> else tryBootstrap lib hostname rest c
      | Inl _ \<Rightarrow> tryBootstrap lib hostname rest c)"

definition resolveServerIP :: "netlib \<Rightarrow> DoHClient \<Rightarrow> DoHClient" where
  "resolveServerIP lib c =
     (case url_hostname lib (serverURL c) of
        None \<Rightarrow> c
      | Some hostname \<Rightarrow>
          (case parse_ip lib hostname of
             Some ip \<Rightarrow> c\<lparr>serverIP := ip\<rparr>
           | None \<Rightarrow> tryBootstrap lib hostname bootstrapDNS c))"

definition NewDoHClient :: "netlib \<Rightarrow> string \<Rightarrow> string \<Rightarrow> DoHClient" where
  "NewDoHClient lib url prof =
     resolveServerIP lib \<lparr>serverURL = url, profile = prof, serverIP = ''''\<rparr>"

text \<open>
  \<open>dialContext\<close> up to its last line: the address it hands to \<open>net.Dialer.DialContext\<close>.
  The dialer connects to an IP literal directly and resolves any other host through the
  resolver of the system.
\<close>

definition dialAddr :: "netlib \<Rightarrow> DoHClient \<Rightarrow> string \<Rightarrow> string" where
  "dialAddr lib c addr =
     (if serverIP c \<noteq> '''' then
        (case split_host_port lib addr of
           None \<Rightarrow> addr
         | Some (host, port) \<Rightarrow>
             (case url_hostname lib (serverURL c) of
                None \<Rightarrow> addr
              | Some h \<Rightarrow> if host = h then join_host_port lib (serverIP c) port else addr))
      else addr)"

text \<open>
  \<open>Query\<close>. The HTTP client was built in \<open>NewDoHClient\<close> with \<open>dialContext\<close> as the dial
  function of its transport, so \<open>c.httpClient.Do\<close> is \<open>http_do\<close> with the hook \<open>dialAddr\<close>.
\<close>

text \<open>The URL and the request that \<open>Query\<close> builds from the packed message.\<close>

definition queryURL :: "netlib \<Rightarrow> DoHClient \<Rightarrow> 8 word list \<Rightarrow> string" where
  "queryURL lib c packed =
     (let url = serverURL c @ ''/dns-query?dns='' @ base64url lib packed
      in if profile c \<noteq> '''' then url @ ''&profile='' @ profile c else url)"

definition queryRequest :: "string \<Rightarrow> string \<Rightarrow> http_request" where
  "queryRequest url password =
     \<lparr>req_method = ''GET'', req_url = url,
      req_headers = [(''Accept'', ''application/dns-message'')]
        @ (if password \<noteq> '''' then [(''X-FilterDNS-Password'', password)] else []),
      req_body = []\<rparr>"

definition Query :: "netlib \<Rightarrow> DoHClient \<Rightarrow> Msg \<Rightarrow> string \<Rightarrow> error + Msg" where
  "Query lib c m password =
     (case pack_msg lib m of
        None \<Rightarrow> Inl (Error ''failed to pack DNS message'')
      | Some packed \<Rightarrow>
          let url = queryURL lib c packed
          in if \<not> valid_url lib url then Inl (Error ''failed to create request'')
             else
               (case http_do lib (dialAddr lib c) (queryRequest url password) of
                  None \<Rightarrow> Inl (Error ''DoH request failed'')
                | Some resp \<Rightarrow>
                    if status resp \<noteq> 200 then Inl (Error ''DoH server returned'')
                    else (case resp_body resp of
                            None \<Rightarrow> Inl (Error ''failed to read response'')
                          | Some body \<Rightarrow>
                              (case unpack_msg lib body of
                                 None \<Rightarrow> Inl (Error ''failed to unpack DNS response'')
                               | Some response \<Rightarrow> Inr response))))"

text \<open>
  A bootstrap server is silent for a hostname when \<open>resolveWithDNS\<close> fails with it or
  returns the empty string, and answers otherwise.
\<close>

definition silent :: "netlib \<Rightarrow> string \<Rightarrow> string \<Rightarrow> bool" where
  "silent lib h srv =
     (case resolveWithDNS lib h srv of Inl _ \<Rightarrow> True | Inr ip \<Rightarrow> ip = '''')"

definition answers :: "netlib \<Rightarrow> string \<Rightarrow> string \<Rightarrow> string \<Rightarrow> bool" where
  "answers lib h srv ip \<longleftrightarrow> resolveWithDNS lib h srv = Inr ip \<and> ip \<noteq> ''''"

section \<open>DNS proxy (internal/dns/proxy.go)\<close>

record Proxy =
  pconfig :: Config
  dohClient :: DoHClient
  forwarders :: "forwarderRule list"
  cache :: Cache
  queriesTotal :: "64 word"
  queriesBlocked :: "64 word"

definition NewProxy :: "netlib \<Rightarrow> Config \<Rightarrow> Proxy" where
  "NewProxy lib cfg =
     \<lparr>pconfig = cfg,
      dohClient = NewDoHClient lib (ServerURL cfg) (Profile cfg),
      forwarders = NewForwarderMatcher (to_lower lib) (slice (Forwarders cfg)),
      cache = NewCache (5 * 60 * Second) 10000,
      queriesTotal = 0, queriesBlocked = 0\<rparr>"

text \<open>The loop of \<open>isBlockedResponse\<close> over the answer section.\<close>

fun blockedAnswer :: "RR list \<Rightarrow> bool" where
  "blockedAnswer [] = False"
| "blockedAnswer (RR_A _ ip # rest) = (if IP_Equal ip IPv4zero then True else blockedAnswer rest)"
| "blockedAnswer (RR_AAAA _ ip # rest) =
     (if IP_Equal ip IPv6zero then True else blockedAnswer rest)"
| "blockedAnswer (RR_Other _ # rest) = blockedAnswer rest"

definition isBlockedResponse :: "Msg \<Rightarrow> bool" where
  "isBlockedResponse resp = (if Rcode resp = RcodeNameError then True else blockedAnswer (Answer resp))"

text \<open>
  What a handler writes to the client: \<open>Failed r\<close> is \<open>dns.HandleFailed\<close> for the query
  \<open>r\<close>, \<open>Wrote m\<close> is \<open>WriteMsg\<close> of \<open>m\<close>. The handlers take the current time and the
  iteration order of the cache map, for the insertion into the cache.
\<close>

datatype reply = Failed Msg | Wrote Msg

definition cacheResponse :: "netlib \<Rightarrow> int \<Rightarrow> string list \<Rightarrow> Proxy \<Rightarrow> Msg \<Rightarrow> Msg \<Rightarrow> Proxy" where
  "cacheResponse lib t ks p r resp =
     (if 0 < length (Questions r)
      then p\<lparr>cache := Set (type_to_string lib) t ks (cache p)
                         (to_lower lib (Name (Questions r ! 0))) (Qtype (Questions r ! 0))
                         resp\<rparr>
      else p)"

definition forwardToDoH :: "netlib \<Rightarrow> int \<Rightarrow> string list \<Rightarrow> Proxy \<Rightarrow> Msg \<Rightarrow> reply \<times> Proxy" where
  "forwardToDoH lib t ks p r =
     (let password = get_password lib (Profile (pconfig p))
      in case Query lib (dohClient p) r password of
           Inl _ \<Rightarrow> (Failed r, p)
         | Inr resp \<Rightarrow>
             let p1 = cacheResponse lib t ks p r resp;
                 p2 = (if isBlockedResponse resp
                       then p1\<lparr>queriesBlocked := queriesBlocked p1 + 1\<rparr> else p1)
             in (Wrote resp, p2))"

definition forwardToServer ::
  "netlib \<Rightarrow> int \<Rightarrow> string list \<Rightarrow> Proxy \<Rightarrow> Msg \<Rightarrow> string \<Rightarrow> reply \<times> Proxy" where
  "forwardToServer lib t ks p r srv =
     (let srv' = (if \<not> Contains srv '':'' then join_host_port lib srv ''53'' else srv)
      in case udp_exchange lib r srv' of
           None \<Rightarrow> (Failed r, p)
         | Some resp \<Rightarrow> (Wrote resp, cacheResponse lib t ks p r resp))"

definition handleQuery :: "netlib \<Rightarrow> int \<Rightarrow> string list \<Rightarrow> Proxy \<Rightarrow> Msg \<Rightarrow> reply \<times> Proxy" where
  "handleQuery lib t ks p r =
     (let p0 = p\<lparr>queriesTotal := queriesTotal p + 1\<rparr>
      in if length (Questions r) = 0 then (Failed r, p0)
         else
           let q = Questions r ! 0;
               qname = to_lower lib (Name q)
           in case Get (type_to_string lib) t (cache p0) qname (Qtype q) of
                Some cached \<Rightarrow> (Wrote (cached\<lparr>Id := Id r\<rparr>), p0)
              | None \<Rightarrow>
                  let forwarder = Match (to_lower lib) (forwarders p0) qname
                  in if forwarder \<noteq> '''' then forwardToServer lib t ks p0 r forwarder
                     else forwardToDoH lib t ks p0 r)"

definition UpdateForwarders :: "netlib \<Rightarrow> Proxy \<Rightarrow> Forwarder list option \<Rightarrow> Proxy" where
  "UpdateForwarders lib p fs = p\<lparr>forwarders := NewForwarderMatcher (to_lower lib) (slice fs)\<rparr>"

definition GetStats :: "Proxy \<Rightarrow> 64 word \<times> 64 word" where
  "GetStats p = (queriesTotal p, queriesBlocked p)"

section \<open>Daemon (package daemon)\<close>

text \<open>
  The daemon state under its lock. The proxy keeps the pointer to the daemon's
  configuration, so the update of \<open>Enabled\<close> is visible in the proxy's copy as well. Starting
  the proxy (a goroutine whose bind error is only logged) and stopping it are logged as
  actions.
\<close>

record Daemon =
  dconfig :: Config
  proxy :: "Proxy option"
  running :: bool

definition enable ::
  "netlib \<Rightarrow> (Config \<Rightarrow> string) \<Rightarrow> env \<Rightarrow> Daemon \<Rightarrow> world \<Rightarrow> error option \<times> Daemon \<times> world" where
  "enable lib marshal e d w =
     (if running d then (None, d, w)
      else if Profile (dconfig d) = '''' then (Some (Error ''no profile configured''), d, w)
      else
        let p = NewProxy lib (dconfig d);
            (_, w1) = perform e ProxyStart w;
            (err, w2) = setDNS e ''127.0.0.1'' w1
        in if err \<noteq> None then
             let (_, w3) = perform e ProxyStop w2
             in (Some (Error ''failed to set system DNS''), d\<lparr>proxy := None\<rparr>, w3)
           else
             let cfg = (dconfig d)\<lparr>Enabled := True\<rparr>;
                 (_, w3) = Save marshal e cfg w2
             in (None, d\<lparr>dconfig := cfg, proxy := Some (p\<lparr>pconfig := cfg\<rparr>), running := True\<rparr>,
                 w3))"

definition disable ::
  "(Config \<Rightarrow> string) \<Rightarrow> env \<Rightarrow> Daemon \<Rightarrow> world \<Rightarrow> error option \<times> Daemon \<times> world" where
  "disable marshal e d w =
     (if \<not> running d then (None, d, w)
      else
        let w1 = (if proxy d \<noteq> None then snd (perform e ProxyStop w) else w);
            (_, w2) = resetDNS e w1;
            cfg = (dconfig d)\<lparr>Enabled := False\<rparr>;
            (_, w3) = Save marshal e cfg w2
        in (None, d\<lparr>dconfig := cfg, proxy := None, running := False\<rparr>, w3))"

definition New :: "string \<Rightarrow> (string \<Rightarrow> Config option) \<Rightarrow> env \<Rightarrow> world \<Rightarrow> Daemon" where
  "New dflt unmarshal e w =
     \<lparr>dconfig = (case Load dflt unmarshal e w of Inl _ \<Rightarrow> Default dflt | Inr cfg \<Rightarrow> cfg),
      proxy = None, running = False\<rparr>"

text \<open>A stretch of the log with neither a backup write nor a resolver mutation.\<close>

definition quiet :: "(action \<times> bool) list \<Rightarrow> bool" where
  "quiet evs = list_all (\<lambda>ev. \<not> is_backup_write (fst ev) \<and> \<not> is_resolver_mutation (fst ev)) evs"

subsection \<open>Hosts used in the closed examples\<close>

text \<open>
  A host before any change: /etc/resolv.conf names 192.168.1.1, there is no backup, no
  per-link setting and no static NetworkManager DNS.
\<close>

definition world0 :: world where
  "world0 = \<lparr>config_file = None, backup_file = None,
              resolv_conf = Some (''nameserver 192.168.1.1'' @ [CHR 0x0A]),
              resolv_conf_backup = None, link_dns = (\<lambda>_. None),
              link_default_route = (\<lambda>_. None), nm_ipv4_dns = (\<lambda>_. ''''),
              nm_ignore_auto_dns = (\<lambda>_. ''no''), trace = []\<rparr>"

text \<open>
  An environment where /etc/resolv.conf is a regular file, \<open>nmcli\<close> is not installed, the
  default route is on eth0 and no operation fails.
\<close>

definition env_resolvconf :: env where
  "env_resolvconf = \<lparr>clock = 0, trim_space = trimSpaceASCII, fails = (\<lambda>_. False),
       read_fails = (\<lambda>_. False),
       config_path_ok = True, resolv_conf_link = None, nmcli_found = False,
       systemctl_is_active = None,
       proc_net_route = Some [[''Iface'', ''Destination''], [''eth0'', ''00000000'']],
       sys_class_net = (\<lambda>_. False), nmcli_show_active = None, nmcli_show_active_name = None,
       nmcli_show_dns = (\<lambda>_. None), nmcli_show_ignore_auto = (\<lambda>_. None)\<rparr>"

text \<open>The same with /etc/resolv.conf a symbolic link into systemd-resolved.\<close>

definition env_systemd :: env where
  "env_systemd = env_resolvconf\<lparr>resolv_conf_link := Some ''../run/systemd/resolve/stub-resolv.conf''\<rparr>"


text \<open>
  The host as set_dns leaves it under systemd-resolved: the backup file names eth0 and the
  link eth0 points at 127.0.0.1.
\<close>

definition world_diverted :: world where
  "world_diverted = world0\<lparr>
       backup_file := Some (Valid \<lparr>CreatedAt = 0,
           Linux = Some \<lparr>System = ''systemd-resolved'', ConnectionName = '''',
                          OriginalDNS = [], IgnoreAutoDNS = False, Interface = ''eth0'',
                          ResolvConfModified = False\<rparr>,
           DNSModified = True\<rparr>),
       link_dns := (\<lambda>_. None)(''eth0'' := Some [''127.0.0.1'']),
       link_default_route := (\<lambda>_. None)(''eth0'' := Some True)\<rparr>"


subsection \<open>Library and network values used in the closed examples\<close>

text \<open>
  Scenario S4: the upstream is https://filter.example and the bootstrap server
  1.1.1.1:53 answers with the A record 203.0.113.9. The library functions are given at the
  arguments the examples use, where they agree with the real ones. An HTTPS call is
  answered with status 200 when the dial hook sends filter.example:443 to that name (which
  the dialer resolves through the system) or to 203.0.113.9:443, and fails otherwise.
\<close>

definition lib_s4 :: netlib where
  "lib_s4 =
     \<lparr>to_lower = lowerASCII,
      fqdn = (\<lambda>s. if HasSuffix s ''.'' then s else s @ ''.''),
      url_hostname = (\<lambda>u. if u = ''https://filter.example'' then Some ''filter.example''
                           else None),
      parse_ip = (\<lambda>_. None),
      split_host_port = (\<lambda>a. if a = ''filter.example:443'' then Some (''filter.example'', ''443'')
                              else None),
      join_host_port = (\<lambda>h p. h @ '':'' @ p),
      valid_url = (\<lambda>_. True),
      pack_msg = (\<lambda>_. Some []),
      unpack_msg = (\<lambda>_. Some (answer_msg 300)),
      base64url = (\<lambda>_. ''''),
      ip_string = (\<lambda>ip. if ip = [203, 0, 113, 9] then ''203.0.113.9'' else ''''),
      type_to_string = tts_sample,
      query_id = 0,
      udp_exchange = (\<lambda>m srv. if srv = ''1.1.1.1:53''
                                then Some (m\<lparr>Answer := [RR_A 300 [203, 0, 113, 9]]\<rparr>) else None),
      http_do = (\<lambda>hook req. if hook ''filter.example:443'' = ''filter.example:443''
                                 \<or> hook ''filter.example:443'' = ''203.0.113.9:443''
                              then Some \<lparr>status = 200, resp_body = Some []\<rparr> else None),
      get_password = (\<lambda>_. '''')\<rparr>"

text \<open>The same network where 1.1.1.1:53 is unreachable and 8.8.8.8:53 gives the answer.\<close>

definition lib_second :: netlib where
  "lib_second =
     lib_s4\<lparr>udp_exchange := (\<lambda>m srv. if srv = ''8.8.8.8:53''
                                       then Some (m\<lparr>Answer := [RR_A 300 [203, 0, 113, 9]]\<rparr>)
                                       else None)\<rparr>"

text \<open>The same network with outgoing DNS over UDP blocked: no bootstrap server answers.\<close>

definition lib_udp_blocked :: netlib where
  "lib_udp_blocked = lib_s4\<lparr>udp_exchange := (\<lambda>m srv. None)\<rparr>"

text \<open>
  A network where only the split-DNS server 100.100.100.100:53 answers, with NXDOMAIN.
\<close>

definition lib_split_nxdomain :: netlib where
  "lib_split_nxdomain =
     lib_s4\<lparr>udp_exchange := (\<lambda>m srv. if srv = ''100.100.100.100:53''
                                       then Some (m\<lparr>Rcode := RcodeNameError\<rparr>) else None)\<rparr>"

text \<open>The configuration of scenario S1 with the profile home, and a query for a name.\<close>

definition cfg_s1 :: Config where
  "cfg_s1 = \<lparr>Profile = ''home'', ServerURL = ''https://filter.example'', Enabled = False,
             Autostart = False,
             Forwarders = Some [\<lparr>Domain = ''ts.net'', Server = ''100.100.100.100''\<rparr>,
                                \<lparr>Domain = ''*.corp'', Server = ''10.0.0.53''\<rparr>]\<rparr>"

definition query_A :: "string \<Rightarrow> Msg" where
  "query_A n = \<lparr>Id = 7, Rcode = 0, Questions = [\<lparr>Name = n, Qtype = 1\<rparr>], Answer = []\<rparr>"

text \<open>A decoder that reads the empty JSON object as the zero configuration.\<close>

definition unmarshal_sample :: "string \<Rightarrow> Config option" where
  "unmarshal_sample s =
     (if s = ''{}'' then Some \<lparr>Profile = '''', ServerURL = '''', Enabled = False,
                               Autostart = False, Forwarders = None\<rparr>
      else None)"

definition marshal_sample :: "Config \<Rightarrow> string" where
  "marshal_sample cfg = ''{}''"

section \<open>Properties of the forwarder matcher\<close>

lemma HasSuffix_iff_append: "HasSuffix s suf \<longleftrightarrow> (\<exists>pre. s = pre @ suf)"
proof
  assume h: "HasSuffix s suf"
  then have "s = take (length s - length suf) s @ suf"
    by (metis HasSuffix_def append_take_drop_id)
  then show "\<exists>pre. s = pre @ suf" ..
next
  assume "\<exists>pre. s = pre @ suf"
  then show "HasSuffix s suf" by (auto simp: HasSuffix_def)
qed

lemma TrimSuffix_dot: "TrimSuffix s ''.'' = strip_dot s"
  by (cases s rule: rev_cases) (simp_all add: TrimSuffix_def HasSuffix_def strip_dot_def)

lemma drop_wildcard: "(if HasPrefix p ''*.'' then drop 2 p else p) = strip_wildcard p"
proof (cases p)
  case Nil
  then show ?thesis by (simp add: HasPrefix_def strip_wildcard_def)
next
  case (Cons a q)
  then show ?thesis by (cases q) (auto simp: HasPrefix_def strip_wildcard_def)
qed

lemma mkRule_pattern: "pattern (mkRule lower f) = normalize_pattern lower (Domain f)"
  by (simp add: mkRule_def normalize_pattern_def Let_def TrimSuffix_dot drop_wildcard)

lemma mkRule_server: "server (mkRule lower f) = Server f"
  by (simp add: mkRule_def Let_def)

lemma matchRules_find:
  "matchRules (map (mkRule lower) R) d =
     (case find (\<lambda>f. qualifies (normalize_pattern lower (Domain f)) d) R of
        None \<Rightarrow> '''' | Some f \<Rightarrow> Server f)"
  by (induction R) (simp_all add: mkRule_pattern mkRule_server qualifies_def HasSuffix_iff_append)

text \<open>
  The claim C2 as stated fails for the name corp: the wildcard rule *.corp is stored with
  the pattern corp, and the wildcard branch of Match also tests equality with the pattern.
\<close>

theorem C2_corp_counterexample:
  "Match lowerASCII (NewForwarderMatcher lowerASCII
            [\<lparr>Domain = ''ts.net'', Server = ''100.100.100.100''\<rparr>,
             \<lparr>Domain = ''*.corp'', Server = ''10.0.0.53''\<rparr>]) ''corp'' \<noteq> ''''"
  by (simp add: Match_def NewForwarderMatcher_def mkRule_def lowerASCII_def lower_char_def
      TrimSuffix_def HasSuffix_def HasPrefix_def Let_def)

text \<open>
  C2 (amended): with the rules ts.net -> 100.100.100.100 and *.corp -> 10.0.0.53, the name
  corp is routed to 10.0.0.53 (it equals the stripped wildcard pattern), the name xcorp has
  no match (a suffix match requires a preceding dot), and a.b.ts.net is routed to
  100.100.100.100.
\<close>

theorem C2_scenario_S1:
  "Match lowerASCII (NewForwarderMatcher lowerASCII
            [\<lparr>Domain = ''ts.net'', Server = ''100.100.100.100''\<rparr>,
             \<lparr>Domain = ''*.corp'', Server = ''10.0.0.53''\<rparr>]) ''corp'' = ''10.0.0.53''
   \<and> Match lowerASCII (NewForwarderMatcher lowerASCII
            [\<lparr>Domain = ''ts.net'', Server = ''100.100.100.100''\<rparr>,
             \<lparr>Domain = ''*.corp'', Server = ''10.0.0.53''\<rparr>]) ''xcorp'' = ''''
   \<and> Match lowerASCII (NewForwarderMatcher lowerASCII
            [\<lparr>Domain = ''ts.net'', Server = ''100.100.100.100''\<rparr>,
             \<lparr>Domain = ''*.corp'', Server = ''10.0.0.53''\<rparr>]) ''a.b.ts.net''
       = ''100.100.100.100''"
  by (simp add: Match_def NewForwarderMatcher_def mkRule_def lowerASCII_def lower_char_def
      TrimSuffix_def HasSuffix_def HasPrefix_def Let_def)

text \<open>
  C7: for every rule set and name, and whatever the case mapping \<open>strings.ToLower\<close> is,
  Match returns the server of the first rule, in input order, whose normalised pattern
  (trailing dot stripped, lowercased, wildcard prefix stripped) equals the normalised name
  or is a suffix of it preceded by a dot, and the empty result when no rule qualifies; in
  particular for the empty rule set. The last part shows the three normalisations at work
  on ASCII input: the rule *.Corp. matches the name X.CORP. and the rule TS.NET matches
  ts.net, while xcorp does not match *.Corp.
\<close>

theorem C7_match_first_qualifying:
  "Match lower (NewForwarderMatcher lower R) n = spec_match lower R n
   \<and> Match lower (NewForwarderMatcher lower []) n = ''''
   \<and> Match lowerASCII (NewForwarderMatcher lowerASCII
         [\<lparr>Domain = ''TS.NET'', Server = ''100.100.100.100''\<rparr>,
          \<lparr>Domain = ''*.Corp.'', Server = ''10.0.0.53''\<rparr>]) ''X.CORP.'' = ''10.0.0.53''
   \<and> Match lowerASCII (NewForwarderMatcher lowerASCII
         [\<lparr>Domain = ''TS.NET'', Server = ''100.100.100.100''\<rparr>,
          \<lparr>Domain = ''*.Corp.'', Server = ''10.0.0.53''\<rparr>]) ''ts.net'' = ''100.100.100.100''
   \<and> Match lowerASCII (NewForwarderMatcher lowerASCII
         [\<lparr>Domain = ''TS.NET'', Server = ''100.100.100.100''\<rparr>,
          \<lparr>Domain = ''*.Corp.'', Server = ''10.0.0.53''\<rparr>]) ''xcorp'' = ''''"
proof (intro conjI)
  show "Match lower (NewForwarderMatcher lower R) n = spec_match lower R n"
    by (simp add: Match_def NewForwarderMatcher_def spec_match_def normalize_name_def
        matchRules_find TrimSuffix_dot)
  show "Match lower (NewForwarderMatcher lower []) n = ''''"
    by (simp add: Match_def NewForwarderMatcher_def)
qed code_simp+


section \<open>Properties of the cache\<close>

lemma Min_insert_min:
  assumes "finite A"
  shows "Min (insert (min (b::32 word) a) A) = Min (insert a (insert b A))"
  by (metis (no_types, lifting) Min_insert Min_singleton finite_insert
    insert_not_empty min.assoc min.commute assms)

lemma fold_min_ttl:
  "fold (\<lambda>rr m. if Ttl rr < m then Ttl rr else m) xs a = Min (insert a (Ttl ` set xs))"
proof (induction xs arbitrary: a)
  case Nil
  then show ?case by simp
next
  case (Cons x xs)
  have "(if Ttl x < a then Ttl x else a) = min (Ttl x) a" by (auto simp: min_def)
  then have "fold (\<lambda>rr m. if Ttl rr < m then Ttl rr else m) (x # xs) a
        = Min (insert (min (Ttl x) a) (Ttl ` set xs))"
    using Cons.IH by simp
  also have "\<dots> = Min (insert a (insert (Ttl x) (Ttl ` set xs)))"
    by (rule Min_insert_min) simp
  finally show ?case by simp
qed

lemma minTTL_Min: "minTTL answer = Min (insert 3600 (Ttl ` set answer))"
  by (simp add: minTTL_def fold_min_ttl)

lemma effectiveTTL_eq:
  "effectiveTTL d m =
     (if Answer m = [] then d
      else min d (uint (Min (insert 3600 (Ttl ` set (Answer m)))) * Second))"
  by (auto simp: effectiveTTL_def minTTL_Min min_def)

lemma fold_oldest_inv:
  assumes "set ks \<subseteq> dom es" "'''' \<notin> set ks" "k0 \<noteq> ''''" "es k0 = Some e0" "expiresAt e0 = t0"
  shows "\<exists>k t e. fold (oldestStep es) ks (k0, t0) = (k, t) \<and> k \<noteq> '''' \<and> k \<in> insert k0 (set ks)
      \<and> es k = Some e \<and> expiresAt e = t \<and> t \<le> t0
      \<and> (\<forall>k'\<in>set ks. \<forall>e'. es k' = Some e' \<longrightarrow> t \<le> expiresAt e')"
  using assms
proof (induction ks arbitrary: k0 t0 e0)
  case Nil
  then show ?case by simp
next
  case (Cons a ks)
  then obtain ea where ea: "es a = Some ea" by auto
  show ?case
  proof (cases "expiresAt ea < t0")
    case True
    have st: "oldestStep es a (k0, t0) = (a, expiresAt ea)"
      using ea True by (simp add: oldestStep_def)
    have "a \<noteq> ''''" using Cons.prems by auto
    from Cons.IH[of a ea "expiresAt ea"] Cons.prems ea this
    obtain k t e where r: "fold (oldestStep es) ks (a, expiresAt ea) = (k, t)" "k \<noteq> ''''"
      "k \<in> insert a (set ks)" "es k = Some e" "expiresAt e = t" "t \<le> expiresAt ea"
      "\<forall>k'\<in>set ks. \<forall>e'. es k' = Some e' \<longrightarrow> t \<le> expiresAt e'"
      by auto
    then show ?thesis using st True ea by auto
  next
    case False
    have st: "oldestStep es a (k0, t0) = (k0, t0)"
      using ea False Cons.prems by (simp add: oldestStep_def)
    from Cons.IH[of k0 e0 t0] Cons.prems
    obtain k t e where r: "fold (oldestStep es) ks (k0, t0) = (k, t)" "k \<noteq> ''''"
      "k \<in> insert k0 (set ks)" "es k = Some e" "expiresAt e = t" "t \<le> t0"
      "\<forall>k'\<in>set ks. \<forall>e'. es k' = Some e' \<longrightarrow> t \<le> expiresAt e'"
      by auto
    then show ?thesis using st False ea by auto
  qed
qed

lemma evictOldest_min:
  assumes ks: "set ks = dom (entries c)" and ne: "'''' \<notin> dom (entries c)" and nonempty: "ks \<noteq> []"
  shows "\<exists>k e. entries c k = Some e
           \<and> (\<forall>k' e'. entries c k' = Some e' \<longrightarrow> expiresAt e \<le> expiresAt e')
           \<and> evictOldest ks c = c\<lparr>entries := (entries c)(k := None)\<rparr>"
proof -
  obtain a rest where ksd: "ks = a # rest" using nonempty by (cases ks) auto
  then obtain ea where ea: "entries c a = Some ea" using ks by auto
  have a_ne: "a \<noteq> ''''" using ks ne ksd by auto
  have first: "oldestStep (entries c) a ('''', zeroTime) = (a, expiresAt ea)"
    using ea by (simp add: oldestStep_def)
  have sub: "set rest \<subseteq> dom (entries c)" "'''' \<notin> set rest" using ks ne ksd by auto
  from fold_oldest_inv[OF sub a_ne ea refl]
  obtain k t e where r: "fold (oldestStep (entries c)) rest (a, expiresAt ea) = (k, t)" "k \<noteq> ''''"
      "entries c k = Some e" "expiresAt e = t" "t \<le> expiresAt ea"
      "\<forall>k'\<in>set rest. \<forall>e'. entries c k' = Some e' \<longrightarrow> t \<le> expiresAt e'"
    by blast
  have minimal: "\<forall>k' e'. entries c k' = Some e' \<longrightarrow> expiresAt e \<le> expiresAt e'"
  proof (intro allI impI)
    fix k' e' assume h: "entries c k' = Some e'"
    then have "k' \<in> set ks" using ks by auto
    then show "expiresAt e \<le> expiresAt e'" using r h ea ksd by auto
  qed
  have "evictOldest ks c = c\<lparr>entries := (entries c)(k := None)\<rparr>"
    using r first ksd by (simp add: evictOldest_def)
  then show ?thesis using r minimal by blast
qed

lemma cacheKey_nonempty: "cacheKey tts d q \<noteq> ''''"
  by (simp add: cacheKey_def)

lemma Set_drop: "effectiveTTL (ttl c) m < 10 * Second \<Longrightarrow> Set tts now ks c d q m = c"
  by (simp add: Set_def)

lemma Set_entries_store:
  "10 * Second \<le> effectiveTTL (ttl c) m \<Longrightarrow>
   entries (Set tts now ks c d q m) (cacheKey tts d q)
     = Some \<lparr>msg = m, expiresAt = now + effectiveTTL (ttl c) m\<rparr>"
  by (simp add: Set_def Let_def)

lemma Set_maxSize: "maxSize (Set tts now ks c d q m) = maxSize c"
  by (simp add: Set_def Let_def evictOldest_def)

lemma Set_evicts:
  assumes "10 * Second \<le> effectiveTTL (ttl c) m" "maxSize c \<le> Size c"
    "set ks = dom (entries c)" "'''' \<notin> dom (entries c)" "dom (entries c) \<noteq> {}"
  shows "\<exists>k e. entries c k = Some e
           \<and> (\<forall>k' e'. entries c k' = Some e' \<longrightarrow> expiresAt e \<le> expiresAt e')
           \<and> entries (Set tts now ks c d q m)
               = ((entries c)(k := None))(cacheKey tts d q \<mapsto>
                    \<lparr>msg = m, expiresAt = now + effectiveTTL (ttl c) m\<rparr>)"
proof -
  have "ks \<noteq> []" using assms(3) assms(5) by (metis empty_set)
  from evictOldest_min[OF assms(3) assms(4) this]
  obtain k e where r: "entries c k = Some e"
     "\<forall>k' e'. entries c k' = Some e' \<longrightarrow> expiresAt e \<le> expiresAt e'"
     "evictOldest ks c = c\<lparr>entries := (entries c)(k := None)\<rparr>" by blast
  have "entries (Set tts now ks c d q m)
               = ((entries c)(k := None))(cacheKey tts d q \<mapsto>
                    \<lparr>msg = m, expiresAt = now + effectiveTTL (ttl c) m\<rparr>)"
    using assms(1,2) r(3) by (simp add: Set_def Let_def Size_def)
  then show ?thesis using r by blast
qed

lemma Set_no_evict:
  assumes "10 * Second \<le> effectiveTTL (ttl c) m" "Size c < maxSize c"
  shows "entries (Set tts now ks c d q m)
               = (entries c)(cacheKey tts d q \<mapsto>
                    \<lparr>msg = m, expiresAt = now + effectiveTTL (ttl c) m\<rparr>)"
  using assms by (simp add: Set_def Let_def Size_def)

lemma Set_inv:
  assumes inv: "cache_inv c" and big: "1 \<le> maxSize c" and ks: "set ks = dom (entries c)"
  shows "cache_inv (Set tts now ks c d q m)"
proof (cases "effectiveTTL (ttl c) m < 10 * Second")
  case True
  then show ?thesis using inv by (simp add: Set_drop)
next
  case False
  then have ok: "10 * Second \<le> effectiveTTL (ttl c) m" by simp
  have fin: "finite (dom (entries c))" and ne: "'''' \<notin> dom (entries c)"
    and sz: "Size c \<le> maxSize c" using inv by (auto simp: cache_inv_def)
  show ?thesis
  proof (cases "maxSize c \<le> Size c")
    case True
    then have "0 < card (dom (entries c))" using big by (simp add: Size_def)
    then have "dom (entries c) \<noteq> {}" by auto
    from Set_evicts[OF ok True ks ne this, of tts now d q]
    obtain k e where r: "entries c k = Some e"
      "entries (Set tts now ks c d q m)
               = ((entries c)(k := None))(cacheKey tts d q \<mapsto>
                    \<lparr>msg = m, expiresAt = now + effectiveTTL (ttl c) m\<rparr>)" by blast
    have d: "dom (entries (Set tts now ks c d q m)) = insert (cacheKey tts d q) (dom (entries c) - {k})"
      by (simp add: r(2))
    have "card (dom (entries c) - {k}) = card (dom (entries c)) - 1"
      using r(1) fin by (simp add: domI)
    then have "card (insert (cacheKey tts d q) (dom (entries c) - {k})) \<le> card (dom (entries c))"
      using fin \<open>0 < card (dom (entries c))\<close> by (simp add: card_insert_if)
    then show ?thesis using d fin ne sz cacheKey_nonempty[of tts d q]
      by (simp add: cache_inv_def Size_def Set_maxSize)
  next
    case False
    then have lt: "Size c < maxSize c" by simp
    have d: "dom (entries (Set tts now ks c d q m)) = insert (cacheKey tts d q) (dom (entries c))"
      using Set_no_evict[OF ok lt] by simp
    have "card (insert (cacheKey tts d q) (dom (entries c))) \<le> card (dom (entries c)) + 1"
      using fin by (simp add: card_insert_if)
    then show ?thesis using d fin ne lt cacheKey_nonempty[of tts d q]
      by (simp add: cache_inv_def Size_def Set_maxSize)
  qed
qed

lemma NewCache_inv: "0 \<le> n \<Longrightarrow> cache_inv (NewCache t n)"
  by (simp add: cache_inv_def NewCache_def Size_def)

lemma S3_cache_entries:
  "entries (S3_cache tts t ks1 ks2) =
     [cacheKey tts ''a.'' 1 \<mapsto> \<lparr>msg = answer_msg 10, expiresAt = t + 10 * Second\<rparr>,
      cacheKey tts ''b.'' 1 \<mapsto> \<lparr>msg = answer_msg 20, expiresAt = t + 20 * Second\<rparr>]"
  "maxSize (S3_cache tts t ks1 ks2) = 2"
  "ttl (S3_cache tts t ks1 ks2) = 300 * Second"
  by (simp_all add: S3_cache_def Set_def NewCache_def effectiveTTL_def minTTL_def answer_msg_def
      Second_def Let_def cacheKey_def)

lemma S3_third_insert:
  assumes "set ks3 = dom (entries (S3_cache tts t ks1 ks2))"
  shows "dom (entries (Set tts t ks3 (S3_cache tts t ks1 ks2) ''c.'' 1 (answer_msg 30)))
           = {cacheKey tts ''b.'' 1, cacheKey tts ''c.'' 1}"
proof -
  let ?c = "S3_cache tts t ks1 ks2"
  let ?kA = "cacheKey tts ''a.'' 1" and ?kB = "cacheKey tts ''b.'' 1"
  have neq: "?kA \<noteq> ?kB" by (simp add: cacheKey_def)
  have ok: "10 * Second \<le> effectiveTTL (ttl ?c) (answer_msg 30)"
    by (simp add: S3_cache_entries effectiveTTL_def minTTL_def answer_msg_def Second_def)
  have full: "maxSize ?c \<le> Size ?c"
    using neq by (simp add: S3_cache_entries Size_def)
  have ne: "'''' \<notin> dom (entries ?c)"
    by (simp add: S3_cache_entries cacheKey_def)
  have nonempty: "dom (entries ?c) \<noteq> {}"
    by (simp add: S3_cache_entries)
  from Set_evicts[OF ok full assms ne nonempty, of tts t "''c.''" 1]
  obtain k e where r: "entries ?c k = Some e"
     "\<forall>k' e'. entries ?c k' = Some e' \<longrightarrow> expiresAt e \<le> expiresAt e'"
     "entries (Set tts t ks3 ?c ''c.'' 1 (answer_msg 30))
        = ((entries ?c)(k := None))(cacheKey tts ''c.'' 1 \<mapsto>
             \<lparr>msg = answer_msg 30, expiresAt = t + effectiveTTL (ttl ?c) (answer_msg 30)\<rparr>)"
    by blast
  have "k = ?kA"
  proof (rule ccontr)
    assume "k \<noteq> ?kA"
    then have "k = ?kB" "expiresAt e = t + 20 * Second"
      using r(1) by (auto simp: S3_cache_entries split: if_splits)
    moreover have "entries ?c ?kA = Some \<lparr>msg = answer_msg 10, expiresAt = t + 10 * Second\<rparr>"
      using neq by (simp add: S3_cache_entries)
    ultimately have "t + 20 * Second \<le> t + 10 * Second" using r(2) by fastforce
    then show False by (simp add: Second_def)
  qed
  then show ?thesis using neq by (auto simp: r(3) S3_cache_entries)
qed

text \<open>
  C5 (amended): for every cache insertion the effective TTL is the default TTL when the
  response has no answer records, and otherwise the minimum of the default TTL and the
  smallest answer TTL capped at 3600, in seconds; below 10 seconds nothing is stored; if
  the entry is stored, a read of the same key at or before the expiry time returns the
  response and a read strictly after the expiry time is a miss.
\<close>

theorem C5_cache_ttl_and_expiry:
  "effectiveTTL (ttl c) m =
     (if Answer m = [] then ttl c
      else min (ttl c) (uint (Min (insert 3600 (Ttl ` set (Answer m)))) * Second))
   \<and> (effectiveTTL (ttl c) m < 10 * Second \<longrightarrow> Set tts now ks c d q m = c)
   \<and> (10 * Second \<le> effectiveTTL (ttl c) m \<longrightarrow>
        (\<forall>t. Get tts t (Set tts now ks c d q m) d q =
               (if t \<le> now + effectiveTTL (ttl c) m then Some m else None)))"
proof (intro conjI impI allI)
  show "effectiveTTL (ttl c) m =
     (if Answer m = [] then ttl c
      else min (ttl c) (uint (Min (insert 3600 (Ttl ` set (Answer m)))) * Second))"
    by (rule effectiveTTL_eq)
next
  assume "effectiveTTL (ttl c) m < 10 * Second"
  then show "Set tts now ks c d q m = c" by (rule Set_drop)
next
  fix t
  assume "10 * Second \<le> effectiveTTL (ttl c) m"
  from Set_entries_store[OF this]
  show "Get tts t (Set tts now ks c d q m) d q =
               (if t \<le> now + effectiveTTL (ttl c) m then Some m else None)"
    by (simp add: Get_def)
qed

text \<open>Scenario S2: TTL 5 is not cached; TTL 300 is a hit at 300 s and a miss at 301 s.\<close>

theorem C5_cache_ttl_and_expiry_witness:
  "Set tts_sample 0 [] (NewCache (300 * Second) 10000) ''example.com.'' 1 (answer_msg 5)
     = NewCache (300 * Second) 10000
   \<and> Get tts_sample (300 * Second)
        (Set tts_sample 0 [] (NewCache (300 * Second) 10000) ''example.com.'' 1 (answer_msg 300))
        ''example.com.'' 1 = Some (answer_msg 300)
   \<and> Get tts_sample (301 * Second)
        (Set tts_sample 0 [] (NewCache (300 * Second) 10000) ''example.com.'' 1 (answer_msg 300))
        ''example.com.'' 1 = None"
proof -
  let ?c = "NewCache (300 * Second) 10000"
  have e5: "effectiveTTL (ttl ?c) (answer_msg 5) < 10 * Second"
    by (simp add: NewCache_def effectiveTTL_def minTTL_def answer_msg_def Second_def)
  have e300: "effectiveTTL (ttl ?c) (answer_msg 300) = 300 * Second"
    by (simp add: NewCache_def effectiveTTL_def minTTL_def answer_msg_def Second_def)
  have ok: "10 * Second \<le> effectiveTTL (ttl ?c) (answer_msg 300)"
    using e300 by (simp add: Second_def)
  have "Set tts_sample 0 [] ?c ''example.com.'' 1 (answer_msg 5) = ?c"
    using C5_cache_ttl_and_expiry [of ?c "answer_msg 5" tts_sample 0 "[]" "''example.com.''" 1]
      e5 by blast
  moreover have g: "\<forall>t. Get tts_sample t
        (Set tts_sample 0 [] ?c ''example.com.'' 1 (answer_msg 300)) ''example.com.'' 1
       = (if t \<le> 0 + effectiveTTL (ttl ?c) (answer_msg 300) then Some (answer_msg 300) else None)"
    using C5_cache_ttl_and_expiry [of ?c "answer_msg 300" tts_sample 0 "[]" "''example.com.''" 1]
      ok by blast
  ultimately show ?thesis
    using g[rule_format, of "300 * Second"] g[rule_format, of "301 * Second"] e300
    by (simp add: Second_def)
qed

text \<open>
  The claim C5 as stated fails: a read exactly at the expiry time is still a hit, and with a
  default TTL of two hours an answer TTL of 7200 gives an effective TTL of 3600 seconds.
\<close>

theorem C5_at_expiry_counterexample:
  "Get tts_sample (0 + 300 * Second)
        (Set tts_sample 0 [] (NewCache (300 * Second) 10000) ''example.com.'' 1 (answer_msg 300))
        ''example.com.'' 1 \<noteq> None
   \<and> effectiveTTL (ttl (NewCache (7200 * Second) 10000)) (answer_msg 7200)
        \<noteq> min (7200 * Second) (7200 * Second)"
  by (simp add: Get_def Set_def NewCache_def effectiveTTL_def minTTL_def answer_msg_def
      Second_def Let_def)

text \<open>
  C6 (amended): for a cache with \<open>maxSize\<close> at least 1, the number of entries never exceeds
  \<open>maxSize\<close> (the invariant holds for a new cache and is kept by every insertion, whatever
  the iteration order of the map), and an insertion into a cache at capacity evicts exactly
  one entry, one with the earliest \<open>expiresAt\<close>, before storing the new one. In scenario S3
  the cache holds exactly b and c after the third insertion.
\<close>

theorem C6_capacity_and_eviction:
  "(0 \<le> n \<longrightarrow> cache_inv (NewCache t n))
   \<and> (cache_inv c \<and> 1 \<le> maxSize c \<and> set ks = dom (entries c) \<longrightarrow>
        cache_inv (Set tts now ks c d q m)
      \<and> maxSize (Set tts now ks c d q m) = maxSize c
      \<and> Size (Set tts now ks c d q m) \<le> maxSize c
      \<and> (10 * Second \<le> effectiveTTL (ttl c) m \<and> maxSize c \<le> Size c \<longrightarrow>
           (\<exists>k e. entries c k = Some e
              \<and> (\<forall>k' e'. entries c k' = Some e' \<longrightarrow> expiresAt e \<le> expiresAt e')
              \<and> entries (Set tts now ks c d q m)
                  = ((entries c)(k := None))(cacheKey tts d q \<mapsto>
                       \<lparr>msg = m, expiresAt = now + effectiveTTL (ttl c) m\<rparr>))))
   \<and> (set ks3 = dom (entries (S3_cache tts t0 ks1 ks2)) \<longrightarrow>
        dom (entries (Set tts t0 ks3 (S3_cache tts t0 ks1 ks2) ''c.'' 1 (answer_msg 30)))
          = {cacheKey tts ''b.'' 1, cacheKey tts ''c.'' 1})"
proof (intro conjI impI)
  assume "0 \<le> n"
  then show "cache_inv (NewCache t n)" by (rule NewCache_inv)
next
  assume h: "cache_inv c \<and> 1 \<le> maxSize c \<and> set ks = dom (entries c)"
  then have inv: "cache_inv (Set tts now ks c d q m)" by (simp add: Set_inv)
  then show "cache_inv (Set tts now ks c d q m)" .
  show "maxSize (Set tts now ks c d q m) = maxSize c" by (rule Set_maxSize)
  show "Size (Set tts now ks c d q m) \<le> maxSize c"
    using inv by (simp add: cache_inv_def Set_maxSize)
next
  assume h: "cache_inv c \<and> 1 \<le> maxSize c \<and> set ks = dom (entries c)"
    and e: "10 * Second \<le> effectiveTTL (ttl c) m \<and> maxSize c \<le> Size c"
  have ne: "'''' \<notin> dom (entries c)" using h by (simp add: cache_inv_def)
  have "0 < card (dom (entries c))" using h e by (simp add: Size_def)
  then have nonempty: "dom (entries c) \<noteq> {}" by auto
  show "\<exists>k e. entries c k = Some e
              \<and> (\<forall>k' e'. entries c k' = Some e' \<longrightarrow> expiresAt e \<le> expiresAt e')
              \<and> entries (Set tts now ks c d q m)
                  = ((entries c)(k := None))(cacheKey tts d q \<mapsto>
                       \<lparr>msg = m, expiresAt = now + effectiveTTL (ttl c) m\<rparr>)"
    using Set_evicts[of c m ks tts now d q] h e ne nonempty by blast
next
  assume "set ks3 = dom (entries (S3_cache tts t0 ks1 ks2))"
  then show "dom (entries (Set tts t0 ks3 (S3_cache tts t0 ks1 ks2) ''c.'' 1 (answer_msg 30)))
          = {cacheKey tts ''b.'' 1, cacheKey tts ''c.'' 1}"
    by (rule S3_third_insert)
qed

text \<open>The theorem at scenario S3, with the map visited in the order a, b.\<close>

theorem C6_capacity_and_eviction_witness:
  "cache_inv (NewCache (300 * Second) 2)
   \<and> Size (Set tts_sample 0 [''a.:A'', ''b.:A''] (S3_cache tts_sample 0 [] []) ''c.'' 1
             (answer_msg 30)) \<le> 2
   \<and> dom (entries (Set tts_sample 0 [''a.:A'', ''b.:A''] (S3_cache tts_sample 0 [] []) ''c.'' 1
             (answer_msg 30))) = {''b.:A'', ''c.:A''}"
proof -
  let ?c = "S3_cache tts_sample 0 [] []"
  let ?ks = "[''a.:A'', ''b.:A'']"
  have d: "dom (entries ?c) = {''a.:A'', ''b.:A''}"
    by (auto simp: S3_cache_entries cacheKey_def tts_sample_def)
  have inv: "cache_inv ?c"
    unfolding cache_inv_def Size_def d by (simp add: S3_cache_entries(2))
  have ks: "set ?ks = dom (entries ?c)" by (simp add: d)
  have big: "1 \<le> maxSize ?c" by (simp add: S3_cache_entries)
  have n: "(0::int) \<le> 2" by simp
  show ?thesis
    using C6_capacity_and_eviction [of 2 "300 * Second" ?c ?ks tts_sample 0 "''c.''" 1
        "answer_msg 30" ?ks 0 "[]" "[]"] inv ks big n
    by (simp add: S3_cache_entries cacheKey_def tts_sample_def)
qed

text \<open>
  The claim C6 as stated fails for \<open>maxSize = 0\<close>: the eviction finds nothing to remove and
  the entry is stored all the same.
\<close>

theorem C6_zero_capacity_counterexample:
  "maxSize (NewCache (300 * Second) 0)
     < Size (Set tts_sample 0 [] (NewCache (300 * Second) 0) ''a.'' 1 (answer_msg 300))"
  by (simp add: Size_def Set_def NewCache_def effectiveTTL_def minTTL_def answer_msg_def
      evictOldest_def Second_def Let_def)

section \<open>Properties of the system DNS mutator\<close>

lemma backup_before_mutation_quiet:
  "quiet evs1 \<Longrightarrow> backup_before_mutation (evs1 @ evs2) = backup_before_mutation evs2"
  by (induction evs1) (auto simp: quiet_def)

lemma saved_imp_backup_before_mutation:
  "saved_before_mutation evs \<Longrightarrow> backup_before_mutation evs"
  by (induction evs) auto

lemma setDNSSystemdResolved_events:
  "saved_before_mutation (new_events w (snd (setDNSSystemdResolved e srv w)))
   \<and> (fst (setDNSSystemdResolved e srv w) = None \<longrightarrow>
         backup_file (snd (setDNSSystemdResolved e srv w)) \<noteq> None)"
  by (simp add: setDNSSystemdResolved_def SaveBackup_def perform_def new_events_def Let_def
      split_def split: sum.splits)

lemma applyNetworkManager_events:
  "saved_before_mutation (new_events w (snd (applyNetworkManager e srv conn dns ign w)))
   \<and> (fst (applyNetworkManager e srv conn dns ign w) = None \<longrightarrow>
         backup_file (snd (applyNetworkManager e srv conn dns ign w)) \<noteq> None)"
  by (simp add: applyNetworkManager_def SaveBackup_def perform_def new_events_def Let_def
      split_def)

lemma setDNSNetworkManager_shape:
  "(fst (setDNSNetworkManager e srv w) \<noteq> None \<and> snd (setDNSNetworkManager e srv w) = w)
   \<or> (\<exists>conn dns ign.
         setDNSNetworkManager e srv w = applyNetworkManager e srv conn dns ign w)"
  by (auto simp: setDNSNetworkManager_def Let_def split_def split: option.splits)

lemma setDNSNetworkManager_events:
  "saved_before_mutation (new_events w (snd (setDNSNetworkManager e srv w)))
   \<and> (fst (setDNSNetworkManager e srv w) = None \<longrightarrow>
         backup_file (snd (setDNSNetworkManager e srv w)) \<noteq> None)"
proof -
  from setDNSNetworkManager_shape[of e srv w]
  consider (same) "fst (setDNSNetworkManager e srv w) \<noteq> None"
         "snd (setDNSNetworkManager e srv w) = w"
    | (run) conn dns ign
        where "setDNSNetworkManager e srv w = applyNetworkManager e srv conn dns ign w"
    by blast
  then show ?thesis
  proof cases
    case same
    then show ?thesis by (auto simp: new_events_def)
  next
    case run
    then show ?thesis using applyNetworkManager_events[of w e srv conn dns ign] by simp
  qed
qed

lemma copyResolvConf_events:
  "\<exists>evs. trace (snd (copyResolvConf e w)) = trace w @ evs \<and> quiet evs
     \<and> backup_file (snd (copyResolvConf e w)) = backup_file w"
  by (simp add: copyResolvConf_def perform_def quiet_def split_def split: option.splits)

lemma setDNSResolvConf_events:
  "backup_before_mutation (new_events w (snd (setDNSResolvConf e srv w)))
   \<and> (fst (setDNSResolvConf e srv w) = None \<longrightarrow>
        list_all (\<lambda>ev. is_backup_write (fst ev) \<longrightarrow> snd ev)
          (new_events w (snd (setDNSResolvConf e srv w))) \<longrightarrow>
        backup_file (snd (setDNSResolvConf e srv w)) \<noteq> None)"
proof -
  obtain err w1 where c: "copyResolvConf e w = (err, w1)" by (cases "copyResolvConf e w")
  from copyResolvConf_events[of e w] c
  obtain evs where evs: "trace w1 = trace w @ evs" "quiet evs" "backup_file w1 = backup_file w"
    by auto
  show ?thesis
  proof (cases "err = None")
    case False
    then have "setDNSResolvConf e srv w = (err, w1)" using c by (simp add: setDNSResolvConf_def)
    then show ?thesis using evs False
      by (auto simp: new_events_def backup_before_mutation_quiet[where ?evs2.0="[]", simplified])
  next
    case True
    then show ?thesis using c evs
      by (simp add: setDNSResolvConf_def SaveBackup_def perform_def new_events_def Let_def
          split_def backup_before_mutation_quiet quiet_def)
  qed
qed

lemma ClearBackup_events:
  "no_mutation_after_clear (new_events w (snd (ClearBackup e w)))
   \<and> list_ex (\<lambda>ev. fst ev = RemoveBackupFile) (new_events w (snd (ClearBackup e w)))
   \<and> (\<not> fails e RemoveBackupFile \<longrightarrow> backup_file (snd (ClearBackup e w)) = None)"
  by (simp add: ClearBackup_def perform_def new_events_def split_def split: option.splits)

lemma resetDNSSystemdResolved_events:
  "fst (resetDNSSystemdResolved e w) = None \<longrightarrow>
     no_mutation_after_clear (new_events w (snd (resetDNSSystemdResolved e w)))
   \<and> list_ex (\<lambda>ev. fst ev = RemoveBackupFile) (new_events w (snd (resetDNSSystemdResolved e w)))
   \<and> (\<not> fails e RemoveBackupFile \<longrightarrow> backup_file (snd (resetDNSSystemdResolved e w)) = None)"
  by (simp add: resetDNSSystemdResolved_def ClearBackup_def perform_def new_events_def Let_def
      split_def LoadBackup_def split: sum.splits option.splits backup_content.splits)

lemma restoreNetworkManager_events:
  "fst (restoreNetworkManager e conn dns ign w) = None \<longrightarrow>
     no_mutation_after_clear (new_events w (snd (restoreNetworkManager e conn dns ign w)))
   \<and> list_ex (\<lambda>ev. fst ev = RemoveBackupFile)
        (new_events w (snd (restoreNetworkManager e conn dns ign w)))
   \<and> (\<not> fails e RemoveBackupFile \<longrightarrow>
        backup_file (snd (restoreNetworkManager e conn dns ign w)) = None)"
  by (simp add: restoreNetworkManager_def ClearBackup_def perform_def new_events_def Let_def
      split_def split: option.splits)

lemma resetDNSNetworkManager_shape:
  "fst (resetDNSNetworkManager e w) \<noteq> None
   \<or> resetDNSNetworkManager e w = (None, snd (ClearBackup e w))
   \<or> (\<exists>conn dns ign. resetDNSNetworkManager e w = restoreNetworkManager e conn dns ign w)"
  by (auto simp: resetDNSNetworkManager_def Let_def split_def split: sum.splits option.splits)

lemma resetDNSNetworkManager_events:
  "fst (resetDNSNetworkManager e w) = None \<longrightarrow>
     no_mutation_after_clear (new_events w (snd (resetDNSNetworkManager e w)))
   \<and> list_ex (\<lambda>ev. fst ev = RemoveBackupFile) (new_events w (snd (resetDNSNetworkManager e w)))
   \<and> (\<not> fails e RemoveBackupFile \<longrightarrow> backup_file (snd (resetDNSNetworkManager e w)) = None)"
proof
  assume ok: "fst (resetDNSNetworkManager e w) = None"
  from resetDNSNetworkManager_shape[of e w] ok
  consider (clear) "resetDNSNetworkManager e w = (None, snd (ClearBackup e w))"
    | (restore) conn dns ign
        where "resetDNSNetworkManager e w = restoreNetworkManager e conn dns ign w"
    by blast
  then show "no_mutation_after_clear (new_events w (snd (resetDNSNetworkManager e w)))
   \<and> list_ex (\<lambda>ev. fst ev = RemoveBackupFile) (new_events w (snd (resetDNSNetworkManager e w)))
   \<and> (\<not> fails e RemoveBackupFile \<longrightarrow> backup_file (snd (resetDNSNetworkManager e w)) = None)"
  proof cases
    case clear
    then show ?thesis using ClearBackup_events[of w e] by simp
  next
    case restore
    then show ?thesis using ok restoreNetworkManager_events[of e conn dns ign w] by simp
  qed
qed

lemma resetDNSResolvConf_events:
  "fst (resetDNSResolvConf e w) = None \<longrightarrow>
     no_mutation_after_clear (new_events w (snd (resetDNSResolvConf e w)))
   \<and> list_ex (\<lambda>ev. fst ev = RemoveBackupFile) (new_events w (snd (resetDNSResolvConf e w)))
   \<and> (\<not> fails e RemoveBackupFile \<longrightarrow> backup_file (snd (resetDNSResolvConf e w)) = None)"
  by (simp add: resetDNSResolvConf_def ClearBackup_def perform_def new_events_def Let_def
      split_def split: sum.splits option.splits)


lemma setDNS_systemd_path:
  "isSystemdResolved e \<Longrightarrow> setDNS e srv w = setDNSSystemdResolved e srv w"
  by (simp add: setDNS_def)

lemma setDNS_resolvconf_path:
  "\<not> isSystemdResolved e \<Longrightarrow> \<not> isNetworkManager e \<Longrightarrow>
   setDNS e srv w = setDNSResolvConf e srv w"
  by (simp add: setDNS_def)

lemma resetDNS_systemd_path:
  "isSystemdResolved e \<Longrightarrow> resetDNS e w = resetDNSSystemdResolved e w"
  by (simp add: resetDNS_def)


lemma resetDNS_resolvconf_path:
  "\<not> isSystemdResolved e \<Longrightarrow> \<not> isNetworkManager e \<Longrightarrow>
   resetDNS e w = resetDNSResolvConf e w"
  by (simp add: resetDNS_def)

lemma setDNS_events:
  "backup_before_mutation (new_events w (snd (setDNS e srv w)))
   \<and> ((isSystemdResolved e \<or> isNetworkManager e) \<longrightarrow>
         saved_before_mutation (new_events w (snd (setDNS e srv w)))
       \<and> (fst (setDNS e srv w) = None \<longrightarrow> backup_file (snd (setDNS e srv w)) \<noteq> None))
   \<and> (fst (setDNS e srv w) = None
        \<and> list_all (\<lambda>ev. is_backup_write (fst ev) \<longrightarrow> snd ev) (new_events w (snd (setDNS e srv w)))
        \<longrightarrow> backup_file (snd (setDNS e srv w)) \<noteq> None)"
  using setDNSSystemdResolved_events[of w e srv] setDNSNetworkManager_events[of w e srv]
    setDNSResolvConf_events[of w e srv]
  by (auto simp: setDNS_def dest: saved_imp_backup_before_mutation)

lemma resetDNS_events:
  "fst (resetDNS e w) = None \<longrightarrow>
     no_mutation_after_clear (new_events w (snd (resetDNS e w)))
   \<and> list_ex (\<lambda>ev. fst ev = RemoveBackupFile) (new_events w (snd (resetDNS e w)))
   \<and> (\<not> fails e RemoveBackupFile \<longrightarrow> backup_file (snd (resetDNS e w)) = None)"
  using resetDNSSystemdResolved_events[of e w] resetDNSNetworkManager_events[of e w]
    resetDNSResolvConf_events[of e w]
  by (simp add: resetDNS_def)

text \<open>
  C1 (amended): for every call to set_dns, the write of the persistent backup is attempted
  before any OS resolver mutation; on the systemd-resolved and NetworkManager paths no
  mutation happens before that write has succeeded, and a backup file exists after set_dns
  succeeds; on every path a backup file exists after set_dns succeeds when the write of
  the backup did not fail. For every call to reset_dns that succeeds, the removal of the
  backup file is attempted, no restoration step follows that attempt, and no backup file
  exists afterwards unless the removal itself fails.
\<close>

theorem C1_backup_lifecycle:
  "backup_before_mutation (new_events w (snd (setDNS e srv w)))
   \<and> ((isSystemdResolved e \<or> isNetworkManager e) \<longrightarrow>
         saved_before_mutation (new_events w (snd (setDNS e srv w)))
       \<and> (fst (setDNS e srv w) = None \<longrightarrow> backup_file (snd (setDNS e srv w)) \<noteq> None))
   \<and> (fst (setDNS e srv w) = None
        \<and> list_all (\<lambda>ev. is_backup_write (fst ev) \<longrightarrow> snd ev) (new_events w (snd (setDNS e srv w)))
        \<longrightarrow> backup_file (snd (setDNS e srv w)) \<noteq> None)
   \<and> (fst (resetDNS e w') = None \<longrightarrow>
         no_mutation_after_clear (new_events w' (snd (resetDNS e w')))
       \<and> list_ex (\<lambda>ev. fst ev = RemoveBackupFile) (new_events w' (snd (resetDNS e w')))
       \<and> (\<not> fails e RemoveBackupFile \<longrightarrow> backup_file (snd (resetDNS e w')) = None))"
  using setDNS_events[of w e srv] resetDNS_events[of e w'] by blast

text \<open>
  The theorem on a host that uses the resolv.conf fallback (scenario S5 without the kill):
  set_dns succeeds and leaves a backup file; reset_dns on the resulting state succeeds,
  removes the backup file and restores /etc/resolv.conf.
\<close>

theorem C1_backup_lifecycle_witness:
  "fst (setDNS env_resolvconf ''127.0.0.1'' world0) = None
   \<and> backup_file (snd (setDNS env_resolvconf ''127.0.0.1'' world0)) \<noteq> None
   \<and> fst (resetDNS env_resolvconf (snd (setDNS env_resolvconf ''127.0.0.1'' world0))) = None
   \<and> backup_file (snd (resetDNS env_resolvconf (snd (setDNS env_resolvconf ''127.0.0.1'' world0))))
       = None
   \<and> resolv_conf (snd (resetDNS env_resolvconf (snd (setDNS env_resolvconf ''127.0.0.1'' world0))))
       = resolv_conf world0"
proof -
  let ?w1 = "snd (setDNS env_resolvconf ''127.0.0.1'' world0)"
  have path: "\<not> isSystemdResolved env_resolvconf" "\<not> isNetworkManager env_resolvconf"
    by (simp_all add: isSystemdResolved_def isNetworkManager_def env_resolvconf_def)
  have s: "setDNS env_resolvconf ''127.0.0.1'' world0 =
     (None, world0\<lparr>backup_file := Some (Valid \<lparr>CreatedAt = 0,
                       Linux = Some (emptyLinux\<lparr>System := ''resolvconf'',
                                                 ResolvConfModified := True\<rparr>),
                       DNSModified = True\<rparr>),
               resolv_conf := Some (''# Generated by FilterDNS Client'' @ [CHR 0x0A]
                                     @ ''nameserver 127.0.0.1'' @ [CHR 0x0A]),
               resolv_conf_backup := Some (''nameserver 192.168.1.1'' @ [CHR 0x0A]),
               trace := [(WriteResolvConfBackup (''nameserver 192.168.1.1'' @ [CHR 0x0A]), True),
                         (WriteBackupFile \<lparr>CreatedAt = 0,
                            Linux = Some (emptyLinux\<lparr>System := ''resolvconf'',
                                                      ResolvConfModified := True\<rparr>),
                            DNSModified = True\<rparr>, True),
                         (WriteResolvConf (''# Generated by FilterDNS Client'' @ [CHR 0x0A]
                                     @ ''nameserver 127.0.0.1'' @ [CHR 0x0A]), True)]\<rparr>)"
    unfolding setDNS_resolvconf_path[OF path]
    by (simp add: setDNSResolvConf_def copyResolvConf_def
        resolvConfBackupMissing_def SaveBackup_def perform_def newBackup_def Let_def
        env_resolvconf_def world0_def)
  have r: "fst (resetDNS env_resolvconf ?w1) = None"
       "resolv_conf (snd (resetDNS env_resolvconf ?w1)) = resolv_conf world0"
    unfolding resetDNS_resolvconf_path[OF path] s
    by (simp_all add: resetDNSResolvConf_def resolvConfBackupMissing_def
        ClearBackup_def perform_def Let_def env_resolvconf_def world0_def)
  have nf: "\<not> fails env_resolvconf RemoveBackupFile" by (simp add: env_resolvconf_def)
  have saved: "list_all (\<lambda>ev. is_backup_write (fst ev) \<longrightarrow> snd ev) (new_events world0 ?w1)"
    unfolding s by (simp add: new_events_def world0_def)
  have ok: "fst (setDNS env_resolvconf ''127.0.0.1'' world0) = None" by (simp add: s)
  show ?thesis
    using C1_backup_lifecycle [of world0 env_resolvconf "''127.0.0.1''" ?w1] ok saved r nf
    by blast
qed

text \<open>
  The claim C1 as stated fails in two ways. On a systemd-resolved host where the removal
  of the backup file fails, reset_dns still succeeds and the backup file is still there.
  On a resolv.conf host where the write of the backup file fails, set_dns still succeeds
  and there is no backup file: \<open>setDNSResolvConf\<close> drops the result of \<open>SaveBackup\<close>.
\<close>

theorem C1_backup_lifecycle_counterexample:
  "fst (resetDNS (env_systemd\<lparr>fails := (\<lambda>a. a = RemoveBackupFile)\<rparr>) world_diverted) = None
   \<and> backup_file (snd (resetDNS (env_systemd\<lparr>fails := (\<lambda>a. a = RemoveBackupFile)\<rparr>)
                          world_diverted)) \<noteq> None
   \<and> fst (setDNS (env_resolvconf\<lparr>fails := is_backup_write\<rparr>) ''127.0.0.1'' world0) = None
   \<and> backup_file (snd (setDNS (env_resolvconf\<lparr>fails := is_backup_write\<rparr>) ''127.0.0.1'' world0))
       = None"
proof -
  have sysd: "isSystemdResolved (env_systemd\<lparr>fails := (\<lambda>a. a = RemoveBackupFile)\<rparr>)"
    by (simp add: isSystemdResolved_def env_systemd_def env_resolvconf_def HasPrefix_def)
  have a: "fst (resetDNS (env_systemd\<lparr>fails := (\<lambda>a. a = RemoveBackupFile)\<rparr>) world_diverted) = None
   \<and> backup_file (snd (resetDNS (env_systemd\<lparr>fails := (\<lambda>a. a = RemoveBackupFile)\<rparr>)
                          world_diverted)) \<noteq> None"
    unfolding resetDNS_systemd_path[OF sysd]
    by (simp add: resetDNSSystemdResolved_def LoadBackup_def ClearBackup_def perform_def Let_def
        world_diverted_def world0_def env_systemd_def env_resolvconf_def)
  have path: "\<not> isSystemdResolved (env_resolvconf\<lparr>fails := is_backup_write\<rparr>)"
      "\<not> isNetworkManager (env_resolvconf\<lparr>fails := is_backup_write\<rparr>)"
    by (simp_all add: isSystemdResolved_def isNetworkManager_def env_resolvconf_def)
  have b: "fst (setDNS (env_resolvconf\<lparr>fails := is_backup_write\<rparr>) ''127.0.0.1'' world0) = None
   \<and> backup_file (snd (setDNS (env_resolvconf\<lparr>fails := is_backup_write\<rparr>) ''127.0.0.1'' world0))
       = None"
    unfolding setDNS_resolvconf_path[OF path]
    by (simp add: setDNSResolvConf_def copyResolvConf_def
        resolvConfBackupMissing_def SaveBackup_def perform_def newBackup_def Let_def
        env_resolvconf_def world0_def)
  show ?thesis using a b by blast
qed











section \<open>Properties of the configuration store\<close>

text \<open>
  C9 (amended): when the path of the configuration file can be determined and the file
  does not exist, Load returns the default configuration, that is the empty profile, the
  default server URL, enabled and autostart false and the empty forwarder list, with no
  error; when the path cannot be determined, Load returns an error, whether the file
  exists or not. For every successful Load the forwarders of the result are not nil, and
  its server URL is not empty provided the default URL is not empty, as the one of the
  source is: a nil forwarders field has become the empty list and an empty server URL the
  default URL.
\<close>

theorem C9_load_defaults:
  "(config_path_ok e \<and> config_file w = None \<longrightarrow>
      Load dflt unmarshal e w = Inr \<lparr>Profile = '''', ServerURL = dflt, Enabled = False,
                                     Autostart = False, Forwarders = Some []\<rparr>)
   \<and> (\<not> config_path_ok e \<longrightarrow> (\<exists>err. Load dflt unmarshal e w = Inl err))
   \<and> (Load dflt unmarshal e w = Inr cfg \<longrightarrow>
        Forwarders cfg \<noteq> None \<and> (dflt \<noteq> '''' \<longrightarrow> ServerURL cfg \<noteq> ''''))
   \<and> (Load DefaultServerURL unmarshal e w = Inr cfg' \<longrightarrow> ServerURL cfg' \<noteq> '''')
   \<and> (config_path_ok e \<and> config_file w = Some data \<and> \<not> read_fails e ReadConfigFile
        \<and> unmarshal data = Some raw \<longrightarrow>
      Load dflt unmarshal e w =
        Inr (raw\<lparr>ServerURL := (if ServerURL raw = '''' then dflt else ServerURL raw),
                 Forwarders := Some (slice (Forwarders raw))\<rparr>))"
  (is "?missing \<and> ?nopath \<and> ?nonnull \<and> ?source \<and> ?replaced")
proof -
  have a: ?missing by (simp add: Load_def Default_def)
  have b: ?nopath by (simp add: Load_def)
  have c: ?nonnull
    by (auto simp: Load_def Default_def Let_def split: if_splits option.splits)
  have d: ?source
    by (auto simp: Load_def Default_def DefaultServerURL_def Let_def
        split: if_splits option.splits)
  have e: ?replaced
    by (cases "Forwarders raw") (simp_all add: Load_def Let_def slice_def)
  show ?thesis using a b c d e by blast
qed

text \<open>The theorem on a host without a configuration file, and on one whose file is \<open>{}\<close>.\<close>

theorem C9_load_defaults_witness:
  "Load DefaultServerURL unmarshal_sample env_resolvconf world0 = Inr (Default DefaultServerURL)
   \<and> Load DefaultServerURL unmarshal_sample env_resolvconf (world0\<lparr>config_file := Some ''{}''\<rparr>)
       = Inr (Default DefaultServerURL)
   \<and> Forwarders (Default DefaultServerURL) \<noteq> None
   \<and> ServerURL (Default DefaultServerURL) \<noteq> ''''"
proof -
  let ?zero = "\<lparr>Profile = '''', ServerURL = '''', Enabled = False,
                 Autostart = False, Forwarders = None\<rparr>"
  have p1: "config_path_ok env_resolvconf \<and> config_file world0 = None"
    by (simp add: env_resolvconf_def world0_def)
  have p2: "config_path_ok env_resolvconf
      \<and> config_file (world0\<lparr>config_file := Some ''{}''\<rparr>) = Some ''{}''
      \<and> \<not> read_fails env_resolvconf ReadConfigFile
      \<and> unmarshal_sample ''{}'' = Some ?zero"
    by (simp add: env_resolvconf_def unmarshal_sample_def)
  have l1: "Load DefaultServerURL unmarshal_sample env_resolvconf world0
              = Inr (Default DefaultServerURL)"
    using C9_load_defaults [of env_resolvconf world0 DefaultServerURL unmarshal_sample
        "Default DefaultServerURL" "Default DefaultServerURL" "''{}''" ?zero] p1
    by (simp add: Default_def)
  have l2: "Load DefaultServerURL unmarshal_sample env_resolvconf
              (world0\<lparr>config_file := Some ''{}''\<rparr>) = Inr (Default DefaultServerURL)"
    using C9_load_defaults [of env_resolvconf "world0\<lparr>config_file := Some ''{}''\<rparr>"
        DefaultServerURL unmarshal_sample
        "Default DefaultServerURL" "Default DefaultServerURL" "''{}''" ?zero] p2
    by (simp add: Default_def slice_def)
  show ?thesis
    using l1 l2 C9_load_defaults [of env_resolvconf world0 DefaultServerURL unmarshal_sample
        "Default DefaultServerURL" "Default DefaultServerURL" "''{}''" ?zero]
    by simp
qed

text \<open>
  The claim C9 as stated fails when the configuration file does not exist and its path
  cannot be determined either (no usable user configuration directory): Load returns the
  error of \<open>configPath\<close>, not the default configuration.
\<close>

theorem C9_no_config_dir_counterexample:
  "config_file world0 = None
   \<and> Load DefaultServerURL unmarshal_sample (env_resolvconf\<lparr>config_path_ok := False\<rparr>) world0
       = Inl (Error ''config path'')"
  by (simp add: Load_def env_resolvconf_def world0_def)

section \<open>Properties of the DoH client\<close>

lemma tryBootstrap_servers:
  "serverIP c = '''' \<Longrightarrow>
   serverIP (tryBootstrap lib h bootstrapDNS c) =
     (if \<not> silent lib h ''1.1.1.1:53''
        then (case resolveWithDNS lib h ''1.1.1.1:53'' of Inr ip \<Rightarrow> ip | Inl _ \<Rightarrow> '''')
      else if \<not> silent lib h ''8.8.8.8:53''
        then (case resolveWithDNS lib h ''8.8.8.8:53'' of Inr ip \<Rightarrow> ip | Inl _ \<Rightarrow> '''')
      else if \<not> silent lib h ''9.9.9.9:53''
        then (case resolveWithDNS lib h ''9.9.9.9:53'' of Inr ip \<Rightarrow> ip | Inl _ \<Rightarrow> '''')
      else '''')"
  by (simp add: bootstrapDNS_def silent_def split: sum.splits)

lemma NewDoHClient_bootstrap:
  assumes "url_hostname lib url = Some h" "parse_ip lib h = None"
  shows "serverIP (NewDoHClient lib url prof) =
     (if \<not> silent lib h ''1.1.1.1:53''
        then (case resolveWithDNS lib h ''1.1.1.1:53'' of Inr ip \<Rightarrow> ip | Inl _ \<Rightarrow> '''')
      else if \<not> silent lib h ''8.8.8.8:53''
        then (case resolveWithDNS lib h ''8.8.8.8:53'' of Inr ip \<Rightarrow> ip | Inl _ \<Rightarrow> '''')
      else if \<not> silent lib h ''9.9.9.9:53''
        then (case resolveWithDNS lib h ''9.9.9.9:53'' of Inr ip \<Rightarrow> ip | Inl _ \<Rightarrow> '''')
      else '''')"
  using assms by (simp add: NewDoHClient_def resolveServerIP_def tryBootstrap_servers)

lemma dialAddr_unresolved: "serverIP c = '''' \<Longrightarrow> dialAddr lib c = (\<lambda>addr. addr)"
  by (rule ext) (simp add: dialAddr_def)

text \<open>
  C3 (amended). Construction: the client's server IP is the host of the server URL when
  that is an IP literal; otherwise it is the answer of the first of the bootstrap servers
  1.1.1.1:53, 8.8.8.8:53, 9.9.9.9:53, in this order, that answers; it is empty when the URL
  does not parse or every bootstrap server is silent. Dialling: when the client holds a
  server IP, every dial whose target host equals the configured upstream hostname is
  rewritten to that IP with the port preserved. While the client holds no server IP,
  every dial address is passed on as it is, so the system dialer resolves the hostname,
  and a query is still sent: \<open>Query\<close> depends on the server IP through the dial hook
  alone, and it returns the upstream's answer when the HTTP call with unchanged dial
  addresses is answered with status 200 and a body that unpacks.
\<close>

theorem C3_dial_rewrite:
  "(serverIP c \<noteq> '''' \<and> split_host_port lib addr = Some (host, port)
      \<and> url_hostname lib (serverURL c) = Some host \<longrightarrow>
        dialAddr lib c addr = join_host_port lib (serverIP c) port)
   \<and> (url_hostname lib url = None \<longrightarrow> serverIP (NewDoHClient lib url prof) = '''')
   \<and> (url_hostname lib url = Some h \<and> parse_ip lib h = Some ip \<longrightarrow>
        serverIP (NewDoHClient lib url prof) = ip)
   \<and> (url_hostname lib url = Some h \<and> parse_ip lib h = None \<longrightarrow>
        (answers lib h ''1.1.1.1:53'' ip \<longrightarrow> serverIP (NewDoHClient lib url prof) = ip)
      \<and> (silent lib h ''1.1.1.1:53'' \<and> answers lib h ''8.8.8.8:53'' ip \<longrightarrow>
           serverIP (NewDoHClient lib url prof) = ip)
      \<and> (silent lib h ''1.1.1.1:53'' \<and> silent lib h ''8.8.8.8:53''
           \<and> answers lib h ''9.9.9.9:53'' ip \<longrightarrow>
           serverIP (NewDoHClient lib url prof) = ip)
      \<and> (silent lib h ''1.1.1.1:53'' \<and> silent lib h ''8.8.8.8:53''
           \<and> silent lib h ''9.9.9.9:53'' \<longrightarrow>
           serverIP (NewDoHClient lib url prof) = ''''))
   \<and> (serverIP c = '''' \<longrightarrow> dialAddr lib c addr = addr)
   \<and> (serverIP c = '''' \<and> pack_msg lib m = Some packed
        \<and> valid_url lib (queryURL lib c packed)
        \<and> http_do lib (\<lambda>a. a) (queryRequest (queryURL lib c packed) password)
            = Some \<lparr>status = 200, resp_body = Some body\<rparr>
        \<and> unpack_msg lib body = Some resp \<longrightarrow>
        Query lib c m password = Inr resp)
   \<and> (serverURL c' = serverURL c \<and> profile c' = profile c
        \<and> dialAddr lib c' = dialAddr lib c \<longrightarrow>
        Query lib c' m password = Query lib c m password)"
  (is "?rewrite \<and> ?nourl \<and> ?literal \<and> ?bootstrap \<and> ?plain \<and> ?sent \<and> ?hook")
proof -
  have a: ?rewrite by (simp add: dialAddr_def)
  have b: ?nourl by (simp add: NewDoHClient_def resolveServerIP_def)
  have c: ?literal by (simp add: NewDoHClient_def resolveServerIP_def)
  have d: ?bootstrap
  proof (intro impI)
    assume "url_hostname lib url = Some h \<and> parse_ip lib h = None"
    then have s: "serverIP (NewDoHClient lib url prof) =
     (if \<not> silent lib h ''1.1.1.1:53''
        then (case resolveWithDNS lib h ''1.1.1.1:53'' of Inr ip \<Rightarrow> ip | Inl _ \<Rightarrow> '''')
      else if \<not> silent lib h ''8.8.8.8:53''
        then (case resolveWithDNS lib h ''8.8.8.8:53'' of Inr ip \<Rightarrow> ip | Inl _ \<Rightarrow> '''')
      else if \<not> silent lib h ''9.9.9.9:53''
        then (case resolveWithDNS lib h ''9.9.9.9:53'' of Inr ip \<Rightarrow> ip | Inl _ \<Rightarrow> '''')
      else '''')"
      by (simp add: NewDoHClient_bootstrap)
    show "(answers lib h ''1.1.1.1:53'' ip \<longrightarrow> serverIP (NewDoHClient lib url prof) = ip)
      \<and> (silent lib h ''1.1.1.1:53'' \<and> answers lib h ''8.8.8.8:53'' ip \<longrightarrow>
           serverIP (NewDoHClient lib url prof) = ip)
      \<and> (silent lib h ''1.1.1.1:53'' \<and> silent lib h ''8.8.8.8:53''
           \<and> answers lib h ''9.9.9.9:53'' ip \<longrightarrow>
           serverIP (NewDoHClient lib url prof) = ip)
      \<and> (silent lib h ''1.1.1.1:53'' \<and> silent lib h ''8.8.8.8:53''
           \<and> silent lib h ''9.9.9.9:53'' \<longrightarrow>
           serverIP (NewDoHClient lib url prof) = '''')"
      unfolding s by (auto simp: answers_def silent_def)
  qed
  have e: ?plain by (simp add: dialAddr_def)
  have f: ?sent by (simp add: Query_def dialAddr_unresolved Let_def)
  have g: ?hook
  proof (intro impI)
    assume eq: "serverURL c' = serverURL c \<and> profile c' = profile c
        \<and> dialAddr lib c' = dialAddr lib c"
    then have u: "serverURL c' = serverURL c" and p: "profile c' = profile c"
      and d: "dialAddr lib c' = dialAddr lib c"
      by simp_all
    have q: "queryURL lib c' = queryURL lib c"
      by (intro ext) (simp only: queryURL_def u p)
    show "Query lib c' m password = Query lib c m password"
      by (simp only: Query_def q d)
  qed
  show ?thesis using a b c d e f g by blast
qed

text \<open>
  Scenario S4: the bootstrap server 1.1.1.1:53 answers 203.0.113.9, and the first connect
  target for filter.example:443 is 203.0.113.9:443. When 1.1.1.1:53 is unreachable the
  answer of 8.8.8.8:53 is taken. A client without a server IP dials the name itself.
\<close>

theorem C3_dial_rewrite_witness:
  "serverIP (NewDoHClient lib_s4 ''https://filter.example'' ''home'') = ''203.0.113.9''
   \<and> dialAddr lib_s4 (NewDoHClient lib_s4 ''https://filter.example'' ''home'')
        ''filter.example:443'' = ''203.0.113.9:443''
   \<and> serverIP (NewDoHClient lib_second ''https://filter.example'' ''home'') = ''203.0.113.9''
   \<and> dialAddr lib_s4 \<lparr>serverURL = ''https://filter.example'', profile = ''home'', serverIP = ''''\<rparr>
        ''filter.example:443'' = ''filter.example:443''"
proof -
  let ?c = "NewDoHClient lib_s4 ''https://filter.example'' ''home''"
  let ?cz = "\<lparr>serverURL = ''https://filter.example'', profile = ''home'', serverIP = ''''\<rparr>"
  have h: "url_hostname lib_s4 ''https://filter.example'' = Some ''filter.example''
      \<and> parse_ip lib_s4 ''filter.example'' = None"
    "split_host_port lib_s4 ''filter.example:443'' = Some (''filter.example'', ''443'')"
    by (simp_all add: lib_s4_def)
  have h2: "url_hostname lib_second ''https://filter.example'' = Some ''filter.example''
      \<and> parse_ip lib_second ''filter.example'' = None"
    by (simp add: lib_second_def lib_s4_def)
  have r: "answers lib_s4 ''filter.example'' ''1.1.1.1:53'' ''203.0.113.9''"
    by (simp add: answers_def resolveWithDNS_def lib_s4_def)
  have r2: "silent lib_second ''filter.example'' ''1.1.1.1:53''
      \<and> answers lib_second ''filter.example'' ''8.8.8.8:53'' ''203.0.113.9''"
    by (simp add: silent_def answers_def resolveWithDNS_def lib_second_def lib_s4_def)
  note at_s4 = C3_dial_rewrite [where lib = lib_s4 and addr = "''filter.example:443''"
      and host = "''filter.example''" and port = "''443''"
      and url = "''https://filter.example''" and h = "''filter.example''"
      and ip = "''203.0.113.9''" and prof = "''home''" and m = "query_A ''example.com.''"
      and packed = "[]" and password = "''''" and body = "[]" and resp = "answer_msg 300"]
  have ip: "serverIP ?c = ''203.0.113.9''"
    using at_s4 [where c = ?cz and c' = ?cz] h r by blast
  have ip2: "serverIP (NewDoHClient lib_second ''https://filter.example'' ''home'')
               = ''203.0.113.9''"
    using C3_dial_rewrite [where lib = lib_second and addr = "''filter.example:443''"
      and host = "''filter.example''" and port = "''443''"
      and url = "''https://filter.example''" and h = "''filter.example''"
      and ip = "''203.0.113.9''" and prof = "''home''" and m = "query_A ''example.com.''"
      and packed = "[]" and password = "''''" and body = "[]" and resp = "answer_msg 300"
      and c = ?cz and c' = ?cz] h2 r2 by blast
  have u: "serverURL ?c = ''https://filter.example''"
    using ip by (simp add: NewDoHClient_def resolveServerIP_def h bootstrapDNS_def
        split: sum.splits if_splits)
  have j: "join_host_port lib_s4 ''203.0.113.9'' ''443'' = ''203.0.113.9:443''"
    by (simp add: lib_s4_def)
  have d: "dialAddr lib_s4 ?c ''filter.example:443'' = ''203.0.113.9:443''"
    using at_s4 [where c = ?c and c' = ?c] h ip u j by simp
  have d0: "dialAddr lib_s4 ?cz ''filter.example:443'' = ''filter.example:443''"
    using at_s4 [where c = ?cz and c' = ?cz] by simp
  show ?thesis using ip ip2 d d0 by simp
qed

text \<open>
  The claim C3 as stated fails when the bootstrap resolution has failed: the client then
  holds no server IP, the dial to the upstream hostname is not rewritten, and a query is
  sent and answered instead of failing.
\<close>

theorem C3_no_bootstrap_counterexample:
  "serverIP (NewDoHClient lib_udp_blocked ''https://filter.example'' ''home'') = ''''
   \<and> dialAddr lib_udp_blocked (NewDoHClient lib_udp_blocked ''https://filter.example'' ''home'')
        ''filter.example:443'' = ''filter.example:443''
   \<and> Query lib_udp_blocked (NewDoHClient lib_udp_blocked ''https://filter.example'' ''home'')
        (query_A ''example.com.'') '''' = Inr (answer_msg 300)"
proof -
  have c: "NewDoHClient lib_udp_blocked ''https://filter.example'' ''home''
             = \<lparr>serverURL = ''https://filter.example'', profile = ''home'', serverIP = ''''\<rparr>"
    by (simp add: NewDoHClient_def resolveServerIP_def resolveWithDNS_def bootstrapDNS_def
        lib_udp_blocked_def lib_s4_def)
  show ?thesis
    unfolding c
    by (simp add: dialAddr_def Query_def queryURL_def queryRequest_def lib_udp_blocked_def
        lib_s4_def Let_def)
qed

section \<open>Properties of the proxy\<close>

lemma blockedAnswer_iff:
  "blockedAnswer rrs \<longleftrightarrow>
     (\<exists>t ip. RR_A t ip \<in> set rrs \<and> IP_Equal ip IPv4zero)
     \<or> (\<exists>t ip. RR_AAAA t ip \<in> set rrs \<and> IP_Equal ip IPv6zero)"
  by (induction rrs rule: blockedAnswer.induct) auto

text \<open>
  On the DoH path the counter follows the block test: it is incremented when the response
  has rcode NXDOMAIN or an A answer equal to 0.0.0.0 or an AAAA answer equal to ::, and is
  unchanged otherwise.
\<close>

lemma forwardToDoH_counts:
  "Query lib (dohClient p) r (get_password lib (Profile (pconfig p))) = Inr resp \<Longrightarrow>
   queriesBlocked (snd (forwardToDoH lib t ks p r)) =
     (if Rcode resp = RcodeNameError
         \<or> (\<exists>ttl ip. RR_A ttl ip \<in> set (Answer resp) \<and> IP_Equal ip IPv4zero)
         \<or> (\<exists>ttl ip. RR_AAAA ttl ip \<in> set (Answer resp) \<and> IP_Equal ip IPv6zero)
      then queriesBlocked p + 1 else queriesBlocked p)"
  by (auto simp: forwardToDoH_def cacheResponse_def isBlockedResponse_def blockedAnswer_iff Let_def)

lemma forwardToServer_counts:
  "queriesBlocked (snd (forwardToServer lib t ks p r srv)) = queriesBlocked p"
  by (simp add: forwardToServer_def cacheResponse_def Let_def split: option.splits)

text \<open>
  C4, the code at the failing input: a query for a.b.ts.net is forwarded to the split-DNS
  server 100.100.100.100:53, the response has rcode NXDOMAIN and is a block by the test
  of the claim, it is written to the client, and \<open>queriesBlocked\<close> is what it was.
\<close>

theorem C4_split_dns_block_not_counted:
  "isBlockedResponse ((query_A ''a.b.ts.net.'')\<lparr>Rcode := RcodeNameError\<rparr>)
   \<and> fst (handleQuery lib_split_nxdomain 0 [] (NewProxy lib_split_nxdomain cfg_s1)
            (query_A ''a.b.ts.net.''))
       = Wrote ((query_A ''a.b.ts.net.'')\<lparr>Rcode := RcodeNameError\<rparr>)
   \<and> queriesBlocked (snd (handleQuery lib_split_nxdomain 0 [] (NewProxy lib_split_nxdomain cfg_s1)
                            (query_A ''a.b.ts.net.'')))
       = queriesBlocked (NewProxy lib_split_nxdomain cfg_s1)"
proof -
  let ?p = "NewProxy lib_split_nxdomain cfg_s1"
  let ?pq = "?p\<lparr>queriesTotal := queriesTotal ?p + 1\<rparr>"
  have m: "Match (to_lower lib_split_nxdomain) (forwarders ?pq)
             (to_lower lib_split_nxdomain ''a.b.ts.net.'') = ''100.100.100.100''"
    by (simp add: NewProxy_def cfg_s1_def slice_def Match_def NewForwarderMatcher_def mkRule_def
        lib_split_nxdomain_def lib_s4_def lowerASCII_def lower_char_def TrimSuffix_def
        HasSuffix_def HasPrefix_def Let_def)
  have g: "Get (type_to_string lib_split_nxdomain) 0 (cache ?pq)
             (to_lower lib_split_nxdomain ''a.b.ts.net.'') 1 = None"
    by (simp add: NewProxy_def NewCache_def Get_def)
  have h: "handleQuery lib_split_nxdomain 0 [] ?p (query_A ''a.b.ts.net.'')
             = forwardToServer lib_split_nxdomain 0 [] ?pq (query_A ''a.b.ts.net.'')
                 ''100.100.100.100''"
    using m g by (simp add: handleQuery_def query_A_def Let_def)
  have x: "udp_exchange lib_split_nxdomain (query_A ''a.b.ts.net.'')
             (join_host_port lib_split_nxdomain ''100.100.100.100'' ''53'')
           = Some ((query_A ''a.b.ts.net.'')\<lparr>Rcode := RcodeNameError\<rparr>)"
    by (simp add: lib_split_nxdomain_def lib_s4_def)
  have nc: "\<not> Contains ''100.100.100.100'' '':''"
    by (simp add: HasPrefix_def)
  have w: "fst (forwardToServer lib_split_nxdomain 0 [] ?pq (query_A ''a.b.ts.net.'')
                 ''100.100.100.100'')
             = Wrote ((query_A ''a.b.ts.net.'')\<lparr>Rcode := RcodeNameError\<rparr>)"
    using x nc by (simp add: forwardToServer_def Let_def)
  have b: "isBlockedResponse ((query_A ''a.b.ts.net.'')\<lparr>Rcode := RcodeNameError\<rparr>)"
    by (simp add: isBlockedResponse_def)
  show ?thesis
    using b w by (simp add: h forwardToServer_counts)
qed


section \<open>Properties of the daemon\<close>

text \<open>
  C10: enable on a running daemon and disable on a stopped daemon return success at once
  and change nothing: the daemon state and the world are the ones before the call, so no
  proxy is created or stopped, no action is logged (SetDNS and ResetDNS are not invoked)
  and the configuration file is not rewritten.
\<close>

theorem C10_enable_disable_idempotent:
  "(running d \<longrightarrow>
      enable lib marshal e d w = (None, d, w)
      \<and> new_events w (snd (snd (enable lib marshal e d w))) = []
      \<and> config_file (snd (snd (enable lib marshal e d w))) = config_file w)
   \<and> (\<not> running d \<longrightarrow>
      disable marshal e d w = (None, d, w)
      \<and> new_events w (snd (snd (disable marshal e d w))) = []
      \<and> config_file (snd (snd (disable marshal e d w))) = config_file w)"
  by (simp add: enable_def disable_def new_events_def)

text \<open>The theorem on a running daemon with its proxy, and on a stopped one.\<close>

theorem C10_enable_disable_idempotent_witness:
  "enable lib_s4 marshal_sample env_resolvconf
      \<lparr>dconfig = cfg_s1, proxy = Some (NewProxy lib_s4 cfg_s1), running = True\<rparr> world0
     = (None, \<lparr>dconfig = cfg_s1, proxy = Some (NewProxy lib_s4 cfg_s1), running = True\<rparr>, world0)
   \<and> disable marshal_sample env_resolvconf
      \<lparr>dconfig = cfg_s1, proxy = None, running = False\<rparr> world0
     = (None, \<lparr>dconfig = cfg_s1, proxy = None, running = False\<rparr>, world0)"
  using C10_enable_disable_idempotent [of
      "\<lparr>dconfig = cfg_s1, proxy = Some (NewProxy lib_s4 cfg_s1), running = True\<rparr>"
      lib_s4 marshal_sample env_resolvconf world0]
    C10_enable_disable_idempotent [of
      "\<lparr>dconfig = cfg_s1, proxy = None, running = False\<rparr>"
      lib_s4 marshal_sample env_resolvconf world0]
  by simp

end
